theory Spec2Isabelle
  imports Main "HOL-Library.AList" "HOL-Library.Multiset"
begin

section \<open>Shared type contracts (lib/services/types.ts)\<close>

text \<open>
  Record fields live in one name space, so the fields of the TypeScript interfaces carry a
  short prefix of their interface: \<open>au_id\<close> is \<open>AuthUser.id\<close>, and so on. An optional
  field (\<open>email?: string\<close>) is an \<open>option\<close>; \<open>null\<close> is \<open>None\<close>.
\<close>

datatype UserRole = Parent | Kid | Admin

datatype EntryStatus = Pending | Approved | Rejected

type_synonym timestamp = int

record AuthUser =
  au_id :: string
  au_email :: "string option"
  au_role :: "UserRole option"
  au_family_id :: "string option"
  au_display_name :: "string option"

record 'a ApiResponse =
  data :: "'a option"
  error :: "string option"

record 'a ApiListResponse = "'a list ApiResponse" +
  count :: "nat option"

text \<open>The value of \<open>getSession\<close> and the second argument of an auth-state callback:
  \<open>{ user: AuthUser | null }\<close>.\<close>

record Session =
  user :: "AuthUser option"

section \<open>JavaScript values the services handle\<close>

text \<open>
  A thrown or returned error object: every \<open>catch\<close> of the services reads its
  \<open>message\<close>, and \<open>fetchUserProfile\<close> its \<open>code\<close>. The message is a string,
  as it is for \<open>Error\<close> and for the errors of the Supabase client.
\<close>

record js_error =
  message :: string
  code :: "string option"

text \<open>What \<open>await p\<close> does: the promise rejects (the \<open>await\<close> throws) or resolves.\<close>

datatype 'a awaited = Rejects js_error | Resolves 'a

text \<open>\<open>s || d\<close> for a string that may be missing: the empty string is falsy too.\<close>

fun js_or :: "string option \<Rightarrow> string \<Rightarrow> string" where
  "js_or None d = d"
| "js_or (Some s) d = (if s = [] then d else s)"

text \<open>\<open>!s\<close> for \<open>string | null\<close>.\<close>

fun js_falsy :: "string option \<Rightarrow> bool" where
  "js_falsy None = True"
| "js_falsy (Some s) = (s = [])"

text \<open>\<open>`Bearer ${t}`\<close>: a template literal renders \<open>null\<close> as the text \<open>null\<close>.\<close>

fun bearer :: "string option \<Rightarrow> string" where
  "bearer None = ''Bearer null''"
| "bearer (Some t) = ''Bearer '' @ t"



section \<open>HTTP, as the remote services use it\<close>

text \<open>The second argument of \<open>fetch\<close>, as far as the services set it (\<open>opt_method\<close> is
  \<open>options.method\<close>, and so on).\<close>

record 'b RequestInit =
  opt_method :: "string option"
  opt_body :: "'b option"
  opt_headers :: "(string \<times> string) list"

definition no_options :: "'b RequestInit" where
  "no_options = \<lparr>opt_method = None, opt_body = None, opt_headers = []\<rparr>"

record 'b http_request =
  req_url :: string
  req_method :: "string option"
  req_headers :: "(string \<times> string) list"
  req_body :: "'b option"

text \<open>
  The parsed body of a response (\<open>result\<close> in \<open>apiCall\<close>), with the three members the
  services read; \<open>json\<close> is the outcome of \<open>response.json()\<close>, which rejects on a body
  that is not JSON (\<open>Inl\<close>; a body that is JSON and no object makes the next access
  throw, which is caught the same way).
\<close>

record 'a response_body =
  body_message :: "string option"
  body_data :: "'a option"
  body_count :: "nat option"

record 'a http_response =
  ok :: bool
  json :: "js_error + 'a response_body"

text \<open>
  \<open>{ 'Content-Type': ..., 'Authorization': ..., ...options.headers }\<close>: a later key
  overwrites an earlier one in place, a new key is added at the end.
\<close>

definition spread_headers :: "(string \<times> string) list \<Rightarrow> (string \<times> string) list \<Rightarrow> (string \<times> string) list" where
  "spread_headers base extra = fold (\<lambda>(k, v) hs. AList.update k v hs) extra base"

text \<open>
  The body shared by the three \<open>apiCall\<close>s after \<open>fetch\<close> was called: parse the body,
  turn a response that is not ok into an error envelope, and catch whatever was thrown.
\<close>

definition api_envelope :: "'a http_response awaited \<Rightarrow> 'a ApiResponse" where
  "api_envelope r =
     (case r of
        Rejects e \<Rightarrow> \<lparr>data = None, error = Some (message e)\<rparr>
      | Resolves response \<Rightarrow>
          (case json response of
             Inl e \<Rightarrow> \<lparr>data = None, error = Some (message e)\<rparr>
           | Inr result \<Rightarrow>
               if \<not> ok response
               then \<lparr>data = None, error = Some (js_or (body_message result) ''API request failed'')\<rparr>
               else \<lparr>data = body_data result, error = None\<rparr>))"

section \<open>RestApiAuthService (lib/services/auth.service.ts)\<close>

datatype auth_body =
  SignInBody string string
| SignUpBody string string string UserRole

record signin_data =
  sd_user :: AuthUser
  sd_token :: string

text \<open>
  The service object together with what it acts on: the browser's \<open>localStorage\<close>, the
  requests it has sent and the calls it has made to its listeners, oldest first. A
  listener is known by its identity \<open>'c\<close> (\<open>indexOf\<close> compares by identity); what a
  listener does when called belongs to the consumer, and a listener is taken not to
  subscribe or unsubscribe while it is being notified. In \<open>notifyAuthStateChange\<close>
  every listener returns; \<open>notifyAuthStateChange_throwing\<close> below is the same loop with
  listeners that may throw.
\<close>

record 'c RestApiAuthService =
  baseUrl :: string
  apiKey :: string
  authStateCallbacks :: "'c list"
  localStorage :: "string \<rightharpoonup> string"
  sent :: "auth_body http_request list"
  notified :: "('c \<times> string \<times> Session option) list"

definition auth_apiCall ::
  "(auth_body http_request \<Rightarrow> 'a http_response awaited) \<Rightarrow> string \<Rightarrow> auth_body RequestInit \<Rightarrow>
   'c RestApiAuthService \<Rightarrow> 'a ApiResponse \<times> 'c RestApiAuthService" where
  "auth_apiCall fetch endpoint options s =
     (let request =
        \<lparr>req_url = baseUrl s @ endpoint,
         req_method = opt_method options,
         req_headers = spread_headers
           [(''Content-Type'', ''application/json''), (''Authorization'', ''Bearer '' @ apiKey s)]
           (opt_headers options),
         req_body = opt_body options\<rparr>
      in (api_envelope (fetch request), s\<lparr>sent := sent s @ [request]\<rparr>))"

definition rest_getSession ::
  "(auth_body http_request \<Rightarrow> AuthUser http_response awaited) \<Rightarrow>
   'c RestApiAuthService \<Rightarrow> Session \<times> 'c RestApiAuthService" where
  "rest_getSession fetch s =
     (let token = localStorage s ''auth_token''
      in if js_falsy token then (\<lparr>user = None\<rparr>, s)
         else (let (result, s') = auth_apiCall fetch ''/auth/me'' no_options s
               in (\<lparr>user = data result\<rparr>, s')))"

definition onAuthStateChange :: "'c \<Rightarrow> 'c RestApiAuthService \<Rightarrow> 'c RestApiAuthService" where
  "onAuthStateChange callback s = s\<lparr>authStateCallbacks := authStateCallbacks s @ [callback]\<rparr>"


definition notifyAuthStateChange ::
  "string \<Rightarrow> Session option \<Rightarrow> 'c RestApiAuthService \<Rightarrow> 'c RestApiAuthService" where
  "notifyAuthStateChange event session s =
     s\<lparr>notified := notified s @ map (\<lambda>callback. (callback, event, session)) (authStateCallbacks s)\<rparr>"

definition rest_signIn ::
  "(auth_body http_request \<Rightarrow> signin_data http_response awaited) \<Rightarrow> string \<Rightarrow> string \<Rightarrow>
   'c RestApiAuthService \<Rightarrow> AuthUser ApiResponse \<times> 'c RestApiAuthService" where
  "rest_signIn fetch email password s =
     (let (result, s1) = auth_apiCall fetch ''/auth/signin''
            \<lparr>opt_method = Some ''POST'', opt_body = Some (SignInBody email password), opt_headers = []\<rparr> s
      in case data result of
           Some d \<Rightarrow>
             (\<lparr>data = Some (sd_user d), error = None\<rparr>,
              notifyAuthStateChange ''SIGNED_IN'' (Some \<lparr>user = Some (sd_user d)\<rparr>)
                (s1\<lparr>localStorage := (localStorage s1)(''auth_token'' \<mapsto> sd_token d)\<rparr>))
         | None \<Rightarrow> (\<lparr>data = None, error = error result\<rparr>, s1))"

definition rest_signUp ::
  "(auth_body http_request \<Rightarrow> signin_data http_response awaited) \<Rightarrow> string \<Rightarrow> string \<Rightarrow> string \<Rightarrow>
   UserRole \<Rightarrow> 'c RestApiAuthService \<Rightarrow> AuthUser ApiResponse \<times> 'c RestApiAuthService" where
  "rest_signUp fetch email password displayName role s =
     (let (result, s1) = auth_apiCall fetch ''/auth/signup''
            \<lparr>opt_method = Some ''POST'', opt_body = Some (SignUpBody email password displayName role),
             opt_headers = []\<rparr> s
      in case data result of
           Some d \<Rightarrow>
             (\<lparr>data = Some (sd_user d), error = None\<rparr>,
              notifyAuthStateChange ''SIGNED_UP'' (Some \<lparr>user = Some (sd_user d)\<rparr>)
                (s1\<lparr>localStorage := (localStorage s1)(''auth_token'' \<mapsto> sd_token d)\<rparr>))
         | None \<Rightarrow> (\<lparr>data = None, error = error result\<rparr>, s1))"

definition rest_signOut :: "'c RestApiAuthService \<Rightarrow> unit ApiResponse \<times> 'c RestApiAuthService" where
  "rest_signOut s =
     (\<lparr>data = None, error = None\<rparr>,
      notifyAuthStateChange ''SIGNED_OUT'' None
        (s\<lparr>localStorage := (localStorage s)(''auth_token'' := None)\<rparr>))"

text \<open>
  What a listener does when it is called: it returns (\<open>None\<close>) or throws.
  \<open>forEach\<close> has no \<open>try\<close>: it calls the listeners in order of registration and stops
  at the first that throws; its result is the listeners it called and what was thrown.
\<close>

type_synonym 'c listeners = "'c \<Rightarrow> string \<Rightarrow> Session option \<Rightarrow> js_error option"

fun forEach_calling :: "('c \<Rightarrow> js_error option) \<Rightarrow> 'c list \<Rightarrow> 'c list \<times> js_error option" where
  "forEach_calling run [] = ([], None)"
| "forEach_calling run (callback # callbacks) =
     (case run callback of
        Some e \<Rightarrow> ([callback], Some e)
      | None \<Rightarrow> (let (called, thrown) = forEach_calling run callbacks in (callback # called, thrown)))"

definition notifyAuthStateChange_throwing ::
  "'c listeners \<Rightarrow> string \<Rightarrow> Session option \<Rightarrow> 'c RestApiAuthService \<Rightarrow>
   js_error option \<times> 'c RestApiAuthService" where
  "notifyAuthStateChange_throwing listener event session s =
     (let (called, thrown) = forEach_calling (\<lambda>callback. listener callback event session) (authStateCallbacks s)
      in (thrown, s\<lparr>notified := notified s @ map (\<lambda>callback. (callback, event, session)) called\<rparr>))"

text \<open>
  \<open>signOut\<close> with listeners that may throw: what a listener throws leaves the
  \<open>async\<close> method as a rejection, after the token has been removed.
\<close>

definition rest_signOut_throwing ::
  "'c listeners \<Rightarrow> 'c RestApiAuthService \<Rightarrow> unit ApiResponse awaited \<times> 'c RestApiAuthService" where
  "rest_signOut_throwing listener s =
     (let (thrown, s') = notifyAuthStateChange_throwing listener ''SIGNED_OUT'' None
                           (s\<lparr>localStorage := (localStorage s)(''auth_token'' := None)\<rparr>)
      in case thrown of
           Some e \<Rightarrow> (Rejects e, s')
         | None \<Rightarrow> (Resolves \<lparr>data = None, error = None\<rparr>, s'))"

definition rest_fetchUserProfile ::
  "(auth_body http_request \<Rightarrow> AuthUser http_response awaited) \<Rightarrow> string \<Rightarrow>
   'c RestApiAuthService \<Rightarrow> AuthUser ApiResponse \<times> 'c RestApiAuthService" where
  "rest_fetchUserProfile fetch userId s = auth_apiCall fetch (''/auth/profile/'' @ userId) no_options s"

text \<open>The calls a listener received between two states of the service.\<close>

definition received_since ::
  "'c RestApiAuthService \<Rightarrow> 'c RestApiAuthService \<Rightarrow> 'c \<Rightarrow> (string \<times> Session option) list" where
  "received_since s s' callback =
     map snd (filter (\<lambda>call. fst call = callback) (drop (length (notified s)) (notified s')))"

section \<open>Service factory (lib/services/index.ts)\<close>

text \<open>\<open>process.env\<close>: a variable that is not set reads as \<open>undefined\<close>.\<close>

type_synonym env = "string \<rightharpoonup> string"

record ServiceConfig =
  cfg_type :: string
  cfg_baseUrl :: "string option"
  cfg_apiKey :: "string option"

text \<open>\<open>process.env.NEXT_PUBLIC_SERVICE_TYPE || 'supabase'\<close>, and the two REST variables as they are.\<close>

definition getServiceConfig :: "env \<Rightarrow> ServiceConfig" where
  "getServiceConfig env =
     (let serviceType = js_or (env ''NEXT_PUBLIC_SERVICE_TYPE'') ''supabase''
      in \<lparr>cfg_type = serviceType,
          cfg_baseUrl = env ''NEXT_PUBLIC_API_BASE_URL'',
          cfg_apiKey = env ''NEXT_PUBLIC_API_KEY''\<rparr>)"

definition supabase_config_missing :: js_error where
  "supabase_config_missing =
     \<lparr>message = ''Supabase configuration is missing or using placeholder values. Please configure NEXT_PUBLIC_SUPABASE_URL and NEXT_PUBLIC_SUPABASE_ANON_KEY in your .env.local file.'',
      code = None\<rparr>"

text \<open>
  \<open>createClient\<close> of the Supabase library is a parameter; it may throw on its own.
  \<open>!supabaseUrl\<close> holds for a variable that is not set and for the empty string.
\<close>

definition createSupabaseClient :: "(string \<Rightarrow> string \<Rightarrow> js_error + 'k) \<Rightarrow> env \<Rightarrow> js_error + 'k" where
  "createSupabaseClient createClient env =
     (case (env ''NEXT_PUBLIC_SUPABASE_URL'', env ''NEXT_PUBLIC_SUPABASE_ANON_KEY'') of
        (Some supabaseUrl, Some supabaseAnonKey) \<Rightarrow>
          if supabaseUrl = [] \<or> supabaseAnonKey = [] \<or>
             supabaseUrl = ''your-supabase-url-here'' \<or>
             supabaseAnonKey = ''your-supabase-anon-key-here''
          then Inl supabase_config_missing
          else createClient supabaseUrl supabaseAnonKey
      | _ \<Rightarrow> Inl supabase_config_missing)"

text \<open>
  The service objects. \<open>new SupabaseAuthService(client)\<close> is \<open>NewSupabaseAuthService client\<close>;
  the factory holds an object by its identity (a number, in order of creation) and what it
  was constructed with, so that two objects built from the same arguments stay distinct.
  \<open>allocated\<close> counts the service objects created so far.
\<close>

datatype 'k AuthServiceImpl = NewSupabaseAuthService 'k | NewRestApiAuthService string string

datatype 'k DataServiceImpl = NewSupabaseDataService 'k | NewRestApiDataService string string

record 'k ServiceFactory =
  config :: ServiceConfig
  authService :: "(nat \<times> 'k AuthServiceImpl) option"
  dataService :: "(nat \<times> 'k DataServiceImpl) option"
  allocated :: nat

text \<open>The private constructor: it reads the configuration and nothing else.\<close>

definition new_ServiceFactory :: "env \<Rightarrow> 'k ServiceFactory" where
  "new_ServiceFactory env =
     \<lparr>config = getServiceConfig env, authService = None, dataService = None, allocated = 0\<rparr>"

text \<open>\<open>ServiceFactory.getInstance()\<close>, with the static field \<open>instance\<close> passed in and out.\<close>

definition getInstance :: "env \<Rightarrow> 'k ServiceFactory option \<Rightarrow> 'k ServiceFactory \<times> 'k ServiceFactory option" where
  "getInstance env instance =
     (case instance of
        None \<Rightarrow> (let f = new_ServiceFactory env in (f, Some f))
      | Some f \<Rightarrow> (f, Some f))"

definition rest_config_missing :: js_error where
  "rest_config_missing =
     \<lparr>message = ''REST API configuration missing: baseUrl and apiKey are required'', code = None\<rparr>"

definition unsupported_service_type :: "string \<Rightarrow> js_error" where
  "unsupported_service_type t = \<lparr>message = ''Unsupported service type: '' @ t, code = None\<rparr>"

text \<open>
  The getters return the thrown error (\<open>Inl\<close>) or the service, and the factory
  afterwards. The \<open>switch\<close> on \<open>config.type\<close> is the chain of \<open>if\<close>s;
  \<open>!baseUrl || !apiKey\<close> holds when either is missing or empty.
\<close>

definition getAuthService ::
  "(string \<Rightarrow> string \<Rightarrow> js_error + 'k) \<Rightarrow> env \<Rightarrow> 'k ServiceFactory \<Rightarrow>
   (js_error + nat \<times> 'k AuthServiceImpl) \<times> 'k ServiceFactory" where
  "getAuthService createClient env f =
     (case authService f of
        Some service \<Rightarrow> (Inr service, f)
      | None \<Rightarrow>
          if cfg_type (config f) = ''supabase'' then
            (case createSupabaseClient createClient env of
               Inl e \<Rightarrow> (Inl e, f)
             | Inr supabaseClient \<Rightarrow>
                 (let service = (allocated f, NewSupabaseAuthService supabaseClient)
                  in (Inr service, f\<lparr>authService := Some service, allocated := Suc (allocated f)\<rparr>)))
          else if cfg_type (config f) = ''rest-api'' then
            (case (cfg_baseUrl (config f), cfg_apiKey (config f)) of
               (Some url, Some key) \<Rightarrow>
                 if url = [] \<or> key = [] then (Inl rest_config_missing, f)
                 else (let service = (allocated f, NewRestApiAuthService url key)
                       in (Inr service, f\<lparr>authService := Some service, allocated := Suc (allocated f)\<rparr>))
             | _ \<Rightarrow> (Inl rest_config_missing, f))
          else (Inl (unsupported_service_type (cfg_type (config f))), f))"

definition getDataService ::
  "(string \<Rightarrow> string \<Rightarrow> js_error + 'k) \<Rightarrow> env \<Rightarrow> 'k ServiceFactory \<Rightarrow>
   (js_error + nat \<times> 'k DataServiceImpl) \<times> 'k ServiceFactory" where
  "getDataService createClient env f =
     (case dataService f of
        Some service \<Rightarrow> (Inr service, f)
      | None \<Rightarrow>
          if cfg_type (config f) = ''supabase'' then
            (case createSupabaseClient createClient env of
               Inl e \<Rightarrow> (Inl e, f)
             | Inr supabaseClient \<Rightarrow>
                 (let service = (allocated f, NewSupabaseDataService supabaseClient)
                  in (Inr service, f\<lparr>dataService := Some service, allocated := Suc (allocated f)\<rparr>)))
          else if cfg_type (config f) = ''rest-api'' then
            (case (cfg_baseUrl (config f), cfg_apiKey (config f)) of
               (Some url, Some key) \<Rightarrow>
                 if url = [] \<or> key = [] then (Inl rest_config_missing, f)
                 else (let service = (allocated f, NewRestApiDataService url key)
                       in (Inr service, f\<lparr>dataService := Some service, allocated := Suc (allocated f)\<rparr>))
             | _ \<Rightarrow> (Inl rest_config_missing, f))
          else (Inl (unsupported_service_type (cfg_type (config f))), f))"

definition getConfig :: "'k ServiceFactory \<Rightarrow> ServiceConfig" where
  "getConfig f = config f"

definition reset :: "env \<Rightarrow> 'k ServiceFactory \<Rightarrow> 'k ServiceFactory" where
  "reset env f = f\<lparr>authService := None, dataService := None, config := getServiceConfig env\<rparr>"

text \<open>Every cached service was created before now.\<close>

definition factory_ok :: "'k ServiceFactory \<Rightarrow> bool" where
  "factory_ok f =
     ((case authService f of None \<Rightarrow> True | Some a \<Rightarrow> fst a < allocated f) \<and>
      (case dataService f of None \<Rightarrow> True | Some d \<Rightarrow> fst d < allocated f))"

section \<open>The Supabase client, as the services call it\<close>

text \<open>
  A call of the client takes what it is given and the state of the backend, and yields
  what the returned promise settles to and the backend afterwards. Every service method
  takes the calls it makes as parameters, so that a property proved for all of them holds
  for whatever the backend answers.
\<close>

type_synonym ('q, 'r, 's) call = "'q \<Rightarrow> 's \<Rightarrow> 'r awaited \<times> 's"

text \<open>What a query resolves to: \<open>{ data, error, count }\<close>.\<close>

record 'a pg_result =
  pg_data :: "'a option"
  pg_error :: "js_error option"
  pg_count :: "nat option"

text \<open>
  A query as the builder chain states it: \<open>from(t)\<close>, then \<open>select\<close>, \<open>insert\<close>,
  \<open>update\<close> or \<open>delete\<close>, the \<open>eq\<close> filters in order, \<open>order(column, {ascending})\<close>,
  a \<open>select()\<close> after a mutation and \<open>single()\<close>. In a column list,
  \<open>Embedded t inner cs\<close> is \<open>t(cs)\<close>, or \<open>t!inner(cs)\<close> when \<open>inner\<close> holds.
\<close>

datatype pg_column = Column string | Embedded string bool "string list"

datatype 'p pg_verb =
  Select "pg_column list"
| SelectAll
| SelectCountExact string
| Insert 'p
| Update 'p
| Delete

record 'p pg_query =
  q_from :: string
  q_verb :: "'p pg_verb"
  q_eq :: "(string \<times> string) list"
  q_order :: "(string \<times> bool) option"
  q_select :: bool
  q_single :: bool

definition query :: "string \<Rightarrow> 'p pg_verb \<Rightarrow> (string \<times> string) list \<Rightarrow> 'p pg_query" where
  "query t v filters =
     \<lparr>q_from = t, q_verb = v, q_eq = filters, q_order = None, q_select = False, q_single = False\<rparr>"

text \<open>\<open>const { data, error } = await q; if (error) throw error\<close>: what is thrown, or the result.\<close>

definition settled :: "'a pg_result awaited \<Rightarrow> js_error + 'a pg_result" where
  "settled r =
     (case r of
        Rejects e \<Rightarrow> Inl e
      | Resolves res \<Rightarrow> (case pg_error res of Some e \<Rightarrow> Inl e | None \<Rightarrow> Inr res))"

text \<open>\<open>catch (error) { return { data: null, error: error.message } }\<close>, for both envelopes.\<close>

definition caught :: "js_error \<Rightarrow> 'a ApiResponse" where
  "caught e = \<lparr>data = None, error = Some (message e)\<rparr>"

definition caught_list :: "js_error \<Rightarrow> 'a ApiListResponse" where
  "caught_list e = \<lparr>data = None, error = Some (message e), count = None\<rparr>"

text \<open>\<open>data || []\<close>.\<close>

fun or_empty :: "'a list option \<Rightarrow> 'a list" where
  "or_empty None = []"
| "or_empty (Some xs) = xs"

section \<open>Rows of the backend\<close>

text \<open>
  The columns of the tables, as the schema script declares them, that the services write
  or read. A point entry has \<open>submitted_at\<close>; the table has no \<open>created_at\<close>.
\<close>

record Family =
  fam_id :: string
  fam_name :: string
  fam_created_by :: string

record UserProfile =
  up_user_id :: string
  up_email :: string
  up_display_name :: string
  up_role :: UserRole
  up_family_id :: "string option"

record Activity =
  act_id :: string
  act_family_id :: string
  act_name :: string
  act_points :: int

record PointEntry =
  pe_id :: string
  pe_family_id :: string
  pe_user_id :: string
  pe_activity_id :: "string option"
  pe_points :: int
  pe_status :: EntryStatus
  pe_approved_by :: "string option"
  pe_approved_at :: "timestamp option"
  pe_submitted_at :: timestamp

record Kid =
  kid_id :: string
  kid_display_name :: string
  kid_total_points :: int

text \<open>\<open>submitted_at\<close> is filled from a member of an untyped row, which may be \<open>undefined\<close>.\<close>

record PendingActivity =
  pa_id :: string
  pa_activity_name :: string
  pa_kid_name :: string
  pa_points :: int
  pa_submitted_at :: "timestamp option"

record DashboardStats =
  totalKids :: nat
  totalActivities :: nat
  totalRewards :: nat
  pendingApprovals :: nat

section \<open>SupabaseAuthService (lib/services/auth.service.ts)\<close>

text \<open>The results of the auth calls: \<open>{ data: { session } }\<close>, \<open>{ data: { user }, error }\<close>.\<close>

record supabase_session =
  ss_user :: "AuthUser option"

record session_result =
  sr_session :: "supabase_session option"

record auth_result =
  ar_user :: "AuthUser option"
  ar_error :: "js_error option"

record signup_request =
  su_email :: string
  su_password :: string
  su_display_name :: string
  su_role :: UserRole

record profile_columns =
  pc_role :: "UserRole option"
  pc_family_id :: "string option"
  pc_display_name :: "string option"

text \<open>
  \<open>getSession\<close> has no \<open>try\<close>: when the client's promise rejects, so does the
  service's (\<open>Inl\<close>).
\<close>

definition supabase_getSession :: "(unit, session_result, 's) call \<Rightarrow> 's \<Rightarrow> (js_error + Session) \<times> 's" where
  "supabase_getSession auth_getSession s =
     (let (r, s') = auth_getSession () s
      in case r of
           Rejects e \<Rightarrow> (Inl e, s')
         | Resolves res \<Rightarrow>
             (Inr \<lparr>user = (case sr_session res of None \<Rightarrow> None | Some session \<Rightarrow> ss_user session)\<rparr>, s'))"

definition supabase_signIn ::
  "(string \<times> string, auth_result, 's) call \<Rightarrow> string \<Rightarrow> string \<Rightarrow> 's \<Rightarrow> AuthUser ApiResponse \<times> 's" where
  "supabase_signIn auth_signInWithPassword email password s =
     (let (r, s') = auth_signInWithPassword (email, password) s
      in case r of
           Rejects e \<Rightarrow> (caught e, s')
         | Resolves res \<Rightarrow>
             (case ar_error res of
                Some e \<Rightarrow> (caught e, s')
              | None \<Rightarrow> (\<lparr>data = ar_user res, error = None\<rparr>, s')))"

definition supabase_signUp ::
  "(signup_request, auth_result, 's) call \<Rightarrow> (UserProfile pg_query, unit pg_result, 's) call \<Rightarrow>
   (Family pg_query, unit pg_result, 's) call \<Rightarrow>
   string \<Rightarrow> string \<Rightarrow> string \<Rightarrow> UserRole \<Rightarrow> 's \<Rightarrow> AuthUser ApiResponse \<times> 's" where
  "supabase_signUp auth_signUp run_profiles run_families email password displayName role s =
     (let (r, s1) = auth_signUp
            \<lparr>su_email = email, su_password = password, su_display_name = displayName, su_role = role\<rparr> s
      in case r of
           Rejects e \<Rightarrow> (caught e, s1)
         | Resolves res \<Rightarrow>
             (case ar_error res of
                Some e \<Rightarrow> (caught e, s1)
              | None \<Rightarrow>
                  (case ar_user res of
                     None \<Rightarrow> (\<lparr>data = None, error = None\<rparr>, s1)
                   | Some u \<Rightarrow>
                       (let (p, s2) = run_profiles
                              (query ''user_profiles''
                                 (Insert \<lparr>up_user_id = au_id u, up_email = email,
                                    up_display_name = displayName, up_role = role,
                                    up_family_id = (if role = Parent then Some (au_id u) else None)\<rparr>) []) s1
                        in case settled p of
                             Inl profileError \<Rightarrow> (caught profileError, s2)
                           | Inr _ \<Rightarrow>
                               if role = Parent then
                                 (let (f, s3) = run_families
                                        (query ''families''
                                           (Insert \<lparr>fam_id = au_id u,
                                              fam_name = displayName @ [CHR 0x27] @ ''s Family'',
                                              fam_created_by = au_id u\<rparr>) []) s2
                                  in case settled f of
                                       Inl familyError \<Rightarrow> (caught familyError, s3)
                                     | Inr _ \<Rightarrow> (\<lparr>data = Some u, error = None\<rparr>, s3))
                               else (\<lparr>data = Some u, error = None\<rparr>, s2)))))"

definition supabase_signOut :: "(unit, js_error option, 's) call \<Rightarrow> 's \<Rightarrow> unit ApiResponse \<times> 's" where
  "supabase_signOut auth_signOut s =
     (let (r, s') = auth_signOut () s
      in case r of
           Rejects e \<Rightarrow> (caught e, s')
         | Resolves err \<Rightarrow>
             (case err of Some e \<Rightarrow> (caught e, s') | None \<Rightarrow> (\<lparr>data = None, error = None\<rparr>, s')))"

text \<open>
  \<open>if (error && error.code !== "PGRST116") throw error\<close>: the error of a profile that was
  not found is let through, and the user is returned with the columns of no profile.
\<close>

definition supabase_fetchUserProfile ::
  "(unit pg_query, profile_columns pg_result, 's) call \<Rightarrow> string \<Rightarrow> 's \<Rightarrow> AuthUser ApiResponse \<times> 's" where
  "supabase_fetchUserProfile run userId s =
     (let (r, s') = run
            ((query ''user_profiles''
                (Select [Column ''role'', Column ''family_id'', Column ''display_name''])
                [(''user_id'', userId)])\<lparr>q_single := True\<rparr>) s
      in case r of
           Rejects e \<Rightarrow> (caught e, s')
         | Resolves res \<Rightarrow>
             (let profile = pg_data res;
                  found = \<lparr>data = Some \<lparr>au_id = userId, au_email = None,
                            au_role = (case profile of None \<Rightarrow> None | Some p \<Rightarrow> pc_role p),
                            au_family_id = (case profile of None \<Rightarrow> None | Some p \<Rightarrow> pc_family_id p),
                            au_display_name = (case profile of None \<Rightarrow> None | Some p \<Rightarrow> pc_display_name p)\<rparr>,
                          error = None\<rparr>
              in case pg_error res of
                   Some e \<Rightarrow> if code e \<noteq> Some ''PGRST116'' then (caught e, s') else (found, s')
                 | None \<Rightarrow> (found, s')))"

section \<open>SupabaseDataService (lib/services/data.service.ts)\<close>

text \<open>
  The rows of the two dashboard queries, as the service reads them: \<open>kid.point_entries\<close>
  holds the \<open>points\<close> of the embedded entries, \<open>entry.activities\<close> and
  \<open>entry.user_profiles\<close> the \<open>name\<close> and \<open>display_name\<close> of the embedded row, or
  \<open>null\<close> when there is none. A row of \<open>point_entries\<close> has a member for each
  column that was selected: \<open>entry.created_at\<close>, which the service reads, and
  \<open>entry.submitted_at\<close>, which the dashboard page reads, are \<open>undefined\<close> when the
  column was not.
\<close>

record kid_row =
  kr_user_id :: string
  kr_display_name :: string
  kr_point_entries :: "int list option"

record pending_row =
  pr_id :: string
  pr_points :: int
  pr_created_at :: "timestamp option"
  pr_submitted_at :: "timestamp option"
  pr_activities :: "string option"
  pr_user_profiles :: "string option"

text \<open>The object that \<open>approvePointEntry\<close> and \<open>approveRewardRedemption\<close> pass to \<open>update\<close>.\<close>

record approval =
  ap_status :: EntryStatus
  ap_approved_at :: timestamp
  ap_approved_by :: string

text \<open>\<open>kid.point_entries?.reduce((sum, entry) => sum + entry.points, 0) || 0\<close>.\<close>

fun sum_points :: "int list option \<Rightarrow> int" where
  "sum_points None = 0"
| "sum_points (Some ps) = (let total = foldl (\<lambda>sum points. sum + points) 0 ps in if total = 0 then 0 else total)"

definition supabase_fetchKidsWithPoints ::
  "('p pg_query, kid_row list pg_result, 's) call \<Rightarrow> string \<Rightarrow> 's \<Rightarrow> Kid ApiListResponse \<times> 's" where
  "supabase_fetchKidsWithPoints run familyId s =
     (let (r, s') = run
            (query ''user_profiles''
               (Select [Column ''user_id'', Column ''display_name'', Embedded ''point_entries'' True [''points'']])
               [(''family_id'', familyId), (''role'', ''kid''), (''point_entries.status'', ''approved'')]) s
      in case settled r of
           Inl e \<Rightarrow> (caught_list e, s')
         | Inr res \<Rightarrow>
             (\<lparr>data = Some (map (\<lambda>kid. \<lparr>kid_id = kr_user_id kid, kid_display_name = kr_display_name kid,
                                          kid_total_points = sum_points (kr_point_entries kid)\<rparr>)
                               (or_empty (pg_data res))),
               error = None, count = None\<rparr>, s'))"

definition supabase_fetchPendingActivities ::
  "('p pg_query, pending_row list pg_result, 's) call \<Rightarrow> string \<Rightarrow> 's \<Rightarrow> PendingActivity ApiListResponse \<times> 's" where
  "supabase_fetchPendingActivities run familyId s =
     (let (r, s') = run
            ((query ''point_entries''
                (Select [Column ''id'', Column ''points'', Column ''created_at'',
                         Embedded ''activities'' False [''name''],
                         Embedded ''user_profiles'' False [''display_name'']])
                [(''family_id'', familyId), (''status'', ''pending'')])
             \<lparr>q_order := Some (''created_at'', False)\<rparr>) s
      in case settled r of
           Inl e \<Rightarrow> (caught_list e, s')
         | Inr res \<Rightarrow>
             (\<lparr>data = Some (map (\<lambda>entry. \<lparr>pa_id = pr_id entry,
                                            pa_activity_name = js_or (pr_activities entry) ''Unknown Activity'',
                                            pa_kid_name = js_or (pr_user_profiles entry) ''Unknown Kid'',
                                            pa_points = pr_points entry,
                                            pa_submitted_at = pr_created_at entry\<rparr>)
                               (or_empty (pg_data res))),
               error = None, count = None\<rparr>, s'))"

text \<open>\<open>kidsCount.count || 0\<close>.\<close>

fun count_or_0 :: "nat option \<Rightarrow> nat" where
  "count_or_0 None = 0"
| "count_or_0 (Some n) = n"

text \<open>
  \<open>Promise.all\<close> of four queries, started in the order of the array; a rejected one is
  caught (the first of the array here), the \<open>error\<close> of a resolved one is not looked at.
\<close>

definition supabase_fetchDashboardStats ::
  "('p pg_query, 'a pg_result, 's) call \<Rightarrow> string \<Rightarrow> 's \<Rightarrow> DashboardStats ApiResponse \<times> 's" where
  "supabase_fetchDashboardStats run familyId s =
     (let (kids, s1) = run (query ''user_profiles'' (SelectCountExact ''id'')
                              [(''family_id'', familyId), (''role'', ''kid'')]) s;
          (activities, s2) = run (query ''activities'' (SelectCountExact ''id'')
                              [(''family_id'', familyId)]) s1;
          (rewards, s3) = run (query ''rewards'' (SelectCountExact ''id'')
                              [(''family_id'', familyId)]) s2;
          (pending, s4) = run (query ''point_entries'' (SelectCountExact ''id'')
                              [(''family_id'', familyId), (''status'', ''pending'')]) s3
      in case (kids, activities, rewards, pending) of
           (Resolves kidsCount, Resolves activitiesCount, Resolves rewardsCount, Resolves pendingCount) \<Rightarrow>
             (\<lparr>data = Some \<lparr>totalKids = count_or_0 (pg_count kidsCount),
                             totalActivities = count_or_0 (pg_count activitiesCount),
                             totalRewards = count_or_0 (pg_count rewardsCount),
                             pendingApprovals = count_or_0 (pg_count pendingCount)\<rparr>,
               error = None\<rparr>, s4)
         | (Rejects e, _, _, _) \<Rightarrow> (caught e, s4)
         | (_, Rejects e, _, _) \<Rightarrow> (caught e, s4)
         | (_, _, Rejects e, _) \<Rightarrow> (caught e, s4)
         | (_, _, _, Rejects e) \<Rightarrow> (caught e, s4))"

text \<open>The list queries: \<open>select("*")\<close> of a family's rows, newest first.\<close>

definition supabase_fetchActivities ::
  "('p pg_query, 'a list pg_result, 's) call \<Rightarrow> string \<Rightarrow> 's \<Rightarrow> 'a ApiListResponse \<times> 's" where
  "supabase_fetchActivities run familyId s =
     (let (r, s') = run ((query ''activities'' SelectAll [(''family_id'', familyId)])
                          \<lparr>q_order := Some (''created_at'', False)\<rparr>) s
      in case settled r of
           Inl e \<Rightarrow> (caught_list e, s')
         | Inr res \<Rightarrow> (\<lparr>data = Some (or_empty (pg_data res)), error = None, count = None\<rparr>, s'))"

definition supabase_fetchRewards ::
  "('p pg_query, 'a list pg_result, 's) call \<Rightarrow> string \<Rightarrow> 's \<Rightarrow> 'a ApiListResponse \<times> 's" where
  "supabase_fetchRewards run familyId s =
     (let (r, s') = run ((query ''rewards'' SelectAll [(''family_id'', familyId)])
                          \<lparr>q_order := Some (''created_at'', False)\<rparr>) s
      in case settled r of
           Inl e \<Rightarrow> (caught_list e, s')
         | Inr res \<Rightarrow> (\<lparr>data = Some (or_empty (pg_data res)), error = None, count = None\<rparr>, s'))"

text \<open>\<open>if (userId) query = query.eq("user_id", userId)\<close>: an empty \<open>userId\<close> adds no filter.\<close>

definition user_filter :: "string option \<Rightarrow> (string \<times> string) list" where
  "user_filter userId = (case userId of None \<Rightarrow> [] | Some u \<Rightarrow> if u = [] then [] else [(''user_id'', u)])"

definition supabase_fetchPointEntries ::
  "('p pg_query, 'a list pg_result, 's) call \<Rightarrow> string \<Rightarrow> string option \<Rightarrow> 's \<Rightarrow> 'a ApiListResponse \<times> 's" where
  "supabase_fetchPointEntries run familyId userId s =
     (let (r, s') = run ((query ''point_entries'' SelectAll ((''family_id'', familyId) # user_filter userId))
                          \<lparr>q_order := Some (''created_at'', False)\<rparr>) s
      in case settled r of
           Inl e \<Rightarrow> (caught_list e, s')
         | Inr res \<Rightarrow> (\<lparr>data = Some (or_empty (pg_data res)), error = None, count = None\<rparr>, s'))"

definition supabase_fetchRewardRedemptions ::
  "('p pg_query, 'a list pg_result, 's) call \<Rightarrow> string \<Rightarrow> string option \<Rightarrow> 's \<Rightarrow> 'a ApiListResponse \<times> 's" where
  "supabase_fetchRewardRedemptions run familyId userId s =
     (let (r, s') = run ((query ''reward_redemptions'' SelectAll ((''family_id'', familyId) # user_filter userId))
                          \<lparr>q_order := Some (''created_at'', False)\<rparr>) s
      in case settled r of
           Inl e \<Rightarrow> (caught_list e, s')
         | Inr res \<Rightarrow> (\<lparr>data = Some (or_empty (pg_data res)), error = None, count = None\<rparr>, s'))"

text \<open>
  The mutations that return the row: \<open>insert(x).select().single()\<close> and
  \<open>update(x).eq("id", id).select().single()\<close> on a table.
\<close>

definition insert_returning ::
  "('p pg_query, 'a pg_result, 's) call \<Rightarrow> string \<Rightarrow> 'p \<Rightarrow> 's \<Rightarrow> 'a ApiResponse \<times> 's" where
  "insert_returning run t row s =
     (let (r, s') = run ((query t (Insert row) [])\<lparr>q_select := True, q_single := True\<rparr>) s
      in case settled r of
           Inl e \<Rightarrow> (caught e, s')
         | Inr res \<Rightarrow> (\<lparr>data = pg_data res, error = None\<rparr>, s'))"

definition update_returning ::
  "('p pg_query, 'a pg_result, 's) call \<Rightarrow> string \<Rightarrow> string \<Rightarrow> 'p \<Rightarrow> 's \<Rightarrow> 'a ApiResponse \<times> 's" where
  "update_returning run t ident updates s =
     (let (r, s') = run ((query t (Update updates) [(''id'', ident)])\<lparr>q_select := True, q_single := True\<rparr>) s
      in case settled r of
           Inl e \<Rightarrow> (caught e, s')
         | Inr res \<Rightarrow> (\<lparr>data = pg_data res, error = None\<rparr>, s'))"

definition delete_by_id ::
  "('p pg_query, 'a pg_result, 's) call \<Rightarrow> string \<Rightarrow> string \<Rightarrow> 's \<Rightarrow> unit ApiResponse \<times> 's" where
  "delete_by_id run t ident s =
     (let (r, s') = run (query t Delete [(''id'', ident)]) s
      in case settled r of
           Inl e \<Rightarrow> (caught e, s')
         | Inr res \<Rightarrow> (\<lparr>data = None, error = None\<rparr>, s'))"

definition supabase_createActivity ::
  "('p pg_query, 'a pg_result, 's) call \<Rightarrow> 'p \<Rightarrow> 's \<Rightarrow> 'a ApiResponse \<times> 's" where
  "supabase_createActivity run activity s = insert_returning run ''activities'' activity s"

definition supabase_updateActivity ::
  "('p pg_query, 'a pg_result, 's) call \<Rightarrow> string \<Rightarrow> 'p \<Rightarrow> 's \<Rightarrow> 'a ApiResponse \<times> 's" where
  "supabase_updateActivity run ident updates s = update_returning run ''activities'' ident updates s"

definition supabase_deleteActivity ::
  "('p pg_query, 'a pg_result, 's) call \<Rightarrow> string \<Rightarrow> 's \<Rightarrow> unit ApiResponse \<times> 's" where
  "supabase_deleteActivity run ident s = delete_by_id run ''activities'' ident s"

definition supabase_createReward ::
  "('p pg_query, 'a pg_result, 's) call \<Rightarrow> 'p \<Rightarrow> 's \<Rightarrow> 'a ApiResponse \<times> 's" where
  "supabase_createReward run reward s = insert_returning run ''rewards'' reward s"

definition supabase_updateReward ::
  "('p pg_query, 'a pg_result, 's) call \<Rightarrow> string \<Rightarrow> 'p \<Rightarrow> 's \<Rightarrow> 'a ApiResponse \<times> 's" where
  "supabase_updateReward run ident updates s = update_returning run ''rewards'' ident updates s"

definition supabase_deleteReward ::
  "('p pg_query, 'a pg_result, 's) call \<Rightarrow> string \<Rightarrow> 's \<Rightarrow> unit ApiResponse \<times> 's" where
  "supabase_deleteReward run ident s = delete_by_id run ''rewards'' ident s"

definition supabase_createPointEntry ::
  "('p pg_query, 'a pg_result, 's) call \<Rightarrow> 'p \<Rightarrow> 's \<Rightarrow> 'a ApiResponse \<times> 's" where
  "supabase_createPointEntry run entry s = insert_returning run ''point_entries'' entry s"

definition supabase_updatePointEntry ::
  "('p pg_query, 'a pg_result, 's) call \<Rightarrow> string \<Rightarrow> 'p \<Rightarrow> 's \<Rightarrow> 'a ApiResponse \<times> 's" where
  "supabase_updatePointEntry run ident updates s = update_returning run ''point_entries'' ident updates s"

text \<open>\<open>now\<close> is the value of \<open>new Date()\<close> at the call.\<close>

definition supabase_approvePointEntry ::
  "(approval pg_query, 'a pg_result, 's) call \<Rightarrow> timestamp \<Rightarrow> string \<Rightarrow> bool \<Rightarrow> string \<Rightarrow> 's \<Rightarrow>
   'a ApiResponse \<times> 's" where
  "supabase_approvePointEntry run now ident approved approvedBy s =
     update_returning run ''point_entries'' ident
       \<lparr>ap_status = (if approved then Approved else Rejected), ap_approved_at = now,
        ap_approved_by = approvedBy\<rparr> s"

definition supabase_createRewardRedemption ::
  "('p pg_query, 'a pg_result, 's) call \<Rightarrow> 'p \<Rightarrow> 's \<Rightarrow> 'a ApiResponse \<times> 's" where
  "supabase_createRewardRedemption run redemption s = insert_returning run ''reward_redemptions'' redemption s"

definition supabase_approveRewardRedemption ::
  "(approval pg_query, 'a pg_result, 's) call \<Rightarrow> timestamp \<Rightarrow> string \<Rightarrow> bool \<Rightarrow> string \<Rightarrow> 's \<Rightarrow>
   'a ApiResponse \<times> 's" where
  "supabase_approveRewardRedemption run now ident approved approvedBy s =
     update_returning run ''reward_redemptions'' ident
       \<lparr>ap_status = (if approved then Approved else Rejected), ap_approved_at = now,
        ap_approved_by = approvedBy\<rparr> s"

section \<open>A store behind the Supabase client\<close>

record database =
  families :: "Family list"
  user_profiles :: "UserProfile list"
  activities :: "Activity list"
  point_entries :: "PointEntry list"

text \<open>The text of a role and of a status, as the \<open>eq\<close> filters and the tables write them.\<close>

fun role_text :: "UserRole \<Rightarrow> string" where
  "role_text Parent = ''parent''"
| "role_text Kid = ''kid''"
| "role_text Admin = ''admin''"

fun status_text :: "EntryStatus \<Rightarrow> string" where
  "status_text Pending = ''pending''"
| "status_text Approved = ''approved''"
| "status_text Rejected = ''rejected''"

text \<open>An \<open>eq\<close> filter on a column holds of a value when the query has no such filter or
  the value is the one it names.\<close>

definition eq_holds :: "'p pg_query \<Rightarrow> string \<Rightarrow> string option \<Rightarrow> bool" where
  "eq_holds q column v = (case map_of (q_eq q) column of None \<Rightarrow> True | Some w \<Rightarrow> v = Some w)"

definition inner_embedded :: "'p pg_query \<Rightarrow> string \<Rightarrow> bool" where
  "inner_embedded q t =
     (case q_verb q of
        Select columns \<Rightarrow> list_ex (\<lambda>c. case c of Embedded t' inner _ \<Rightarrow> t' = t \<and> inner | Column _ \<Rightarrow> False) columns
      | _ \<Rightarrow> False)"

definition resolved :: "'a \<Rightarrow> 'a pg_result awaited" where
  "resolved rows = Resolves \<lparr>pg_data = Some rows, pg_error = None, pg_count = None\<rparr>"

definition refused :: "js_error \<Rightarrow> 'a pg_result awaited" where
  "refused e = Resolves \<lparr>pg_data = None, pg_error = Some e, pg_count = None\<rparr>"

text \<open>
  Modelled from the spec: the store's answer to the select on \<open>user_profiles\<close> with
  \<open>point_entries\<close> embedded, which is not code of the repository. The profiles that pass the
  \<open>family_id\<close> and \<open>role\<close> filters each carry the points of their own entries (those
  with their \<open>user_id\<close>) that pass the \<open>point_entries.status\<close> filter; with
  \<open>!inner\<close>, a profile with no such entry is left out (section 4.3).
\<close>

definition db_select_user_profiles :: "('p pg_query, kid_row list pg_result, database) call" where
  "db_select_user_profiles q db =
     (let embedded = (\<lambda>p. filter (\<lambda>e. pe_user_id e = up_user_id p \<and>
                                       eq_holds q ''point_entries.status'' (Some (status_text (pe_status e))))
                               (point_entries db));
          matching = filter (\<lambda>p. eq_holds q ''family_id'' (up_family_id p) \<and>
                                  eq_holds q ''role'' (Some (role_text (up_role p))))
                       (user_profiles db);
          kept = (if inner_embedded q ''point_entries'' then filter (\<lambda>p. embedded p \<noteq> []) matching
                  else matching)
      in (resolved (map (\<lambda>p. \<lparr>kr_user_id = up_user_id p, kr_display_name = up_display_name p,
                                kr_point_entries = Some (map pe_points (embedded p))\<rparr>) kept), db))"

text \<open>
  The columns of \<open>point_entries\<close> in the schema script, and the error of the store for
  a column that a table does not have.
\<close>

definition point_entries_columns :: "string list" where
  "point_entries_columns =
     [''id'', ''family_id'', ''user_id'', ''activity_id'', ''reward_id'', ''points'', ''status'',
      ''submitted_at'', ''approved_at'', ''approved_by'', ''notes'']"

definition undefined_column :: "string \<Rightarrow> string \<Rightarrow> js_error" where
  "undefined_column t c =
     \<lparr>message = ''column '' @ t @ ''.'' @ c @ '' does not exist'', code = Some ''42703''\<rparr>"

text \<open>The columns of its table that a query names: in its select list, in its filters
  and in its order.\<close>

definition named_columns :: "'p pg_query \<Rightarrow> string list" where
  "named_columns q =
     (case q_verb q of
        Select columns \<Rightarrow> concat (map (\<lambda>c. case c of Column n \<Rightarrow> [n] | Embedded t inner cs \<Rightarrow> []) columns)
      | _ \<Rightarrow> [])
     @ map fst (q_eq q)
     @ (case q_order q of None \<Rightarrow> [] | Some (column, ascending) \<Rightarrow> [column])"

definition selects :: "'p pg_query \<Rightarrow> string \<Rightarrow> bool" where
  "selects q column = (case q_verb q of Select columns \<Rightarrow> Column column \<in> set columns | _ \<Rightarrow> False)"

text \<open>
  Modelled from the spec: the store's answer to a select on \<open>point_entries\<close> with
  \<open>activities\<close> and \<open>user_profiles\<close> embedded (sections 3 and 4.3). A query that
  names a column the table does not have is answered with an error. Otherwise the answer
  holds the entries that pass the \<open>family_id\<close> and \<open>status\<close> filters, ordered by
  \<open>submitted_at\<close> when \<open>order\<close> names it (descending: newest first; an order on
  another column is not modelled), each with the name of the activity its
  \<open>activity_id\<close> names and the display name of the profile its \<open>user_id\<close> names, or
  \<open>null\<close> where there is no such row.
\<close>

definition db_select_point_entries :: "('p pg_query, pending_row list pg_result, database) call" where
  "db_select_point_entries q db =
     (case find (\<lambda>c. c \<notin> set point_entries_columns) (named_columns q) of
        Some c \<Rightarrow> (refused (undefined_column ''point_entries'' c), db)
      | None \<Rightarrow>
          (let matching = filter (\<lambda>e. eq_holds q ''family_id'' (Some (pe_family_id e)) \<and>
                                       eq_holds q ''status'' (Some (status_text (pe_status e))))
                            (point_entries db);
               ordered = (case q_order q of
                            None \<Rightarrow> matching
                          | Some (column, ascending) \<Rightarrow>
                              if column \<noteq> ''submitted_at'' then matching
                              else if ascending then sort_key pe_submitted_at matching
                              else sort_key (\<lambda>e. - pe_submitted_at e) matching)
           in (resolved (map (\<lambda>e. \<lparr>pr_id = pe_id e, pr_points = pe_points e,
                                     pr_created_at = None,
                                     pr_submitted_at =
                                       (if selects q ''submitted_at'' then Some (pe_submitted_at e) else None),
                                     pr_activities =
                                       (case pe_activity_id e of
                                          None \<Rightarrow> None
                                        | Some a \<Rightarrow> map_option act_name (find (\<lambda>x. act_id x = a) (activities db))),
                                     pr_user_profiles =
                                       map_option up_display_name
                                         (find (\<lambda>p. up_user_id p = pe_user_id e) (user_profiles db))\<rparr>)
                           ordered), db)))"

text \<open>
  Modelled from the spec: the store's answer to
  \<open>update(patch).eq("id", id).select().single()\<close> on \<open>point_entries\<close>. When exactly one
  entry has the id, its status, \<open>approved_at\<close> and \<open>approved_by\<close> are set and the
  entry is returned; otherwise \<open>single()\<close> reports an error and nothing is changed.
\<close>

definition not_single :: js_error where
  "not_single = \<lparr>message = ''JSON object requested, multiple (or no) rows returned'', code = Some ''PGRST116''\<rparr>"



text \<open>
  Modelled from the spec: an insert of one row. Whether the store takes the row (its
  constraints and row-level security, which section 6 leaves to the store) is the
  parameter \<open>decide\<close>; a row that is taken is added to its table.
\<close>

datatype verdict = Accepted | Refused js_error | Unreachable js_error

definition db_insert_profile ::
  "(database \<Rightarrow> UserProfile \<Rightarrow> verdict) \<Rightarrow> (UserProfile pg_query, unit pg_result, database) call" where
  "db_insert_profile decide q db =
     (case q_verb q of
        Insert row \<Rightarrow>
          (case decide db row of
             Accepted \<Rightarrow>
               (Resolves \<lparr>pg_data = None, pg_error = None, pg_count = None\<rparr>,
                db\<lparr>user_profiles := user_profiles db @ [row]\<rparr>)
           | Refused e \<Rightarrow> (refused e, db)
           | Unreachable e \<Rightarrow> (Rejects e, db))
      | _ \<Rightarrow> (refused not_single, db))"

definition db_insert_family ::
  "(database \<Rightarrow> Family \<Rightarrow> verdict) \<Rightarrow> (Family pg_query, unit pg_result, database) call" where
  "db_insert_family decide q db =
     (case q_verb q of
        Insert row \<Rightarrow>
          (case decide db row of
             Accepted \<Rightarrow>
               (Resolves \<lparr>pg_data = None, pg_error = None, pg_count = None\<rparr>,
                db\<lparr>families := families db @ [row]\<rparr>)
           | Refused e \<Rightarrow> (refused e, db)
           | Unreachable e \<Rightarrow> (Rejects e, db))
      | _ \<Rightarrow> (refused not_single, db))"

text \<open>The rows that \<open>signUp\<close> inserts for a parent.\<close>

definition parent_profile :: "AuthUser \<Rightarrow> string \<Rightarrow> string \<Rightarrow> UserProfile" where
  "parent_profile u email displayName =
     \<lparr>up_user_id = au_id u, up_email = email, up_display_name = displayName, up_role = Parent,
      up_family_id = Some (au_id u)\<rparr>"

definition parent_family :: "AuthUser \<Rightarrow> string \<Rightarrow> Family" where
  "parent_family u displayName =
     \<lparr>fam_id = au_id u, fam_name = displayName @ [CHR 0x27] @ ''s Family'', fam_created_by = au_id u\<rparr>"

section \<open>The dashboard queries in the words of the specification\<close>

text \<open>The rows a pending entry refers to (ids are primary keys: the first match is the row).\<close>

definition referenced_activity :: "database \<Rightarrow> PointEntry \<Rightarrow> Activity option" where
  "referenced_activity db e =
     (case pe_activity_id e of None \<Rightarrow> None | Some a \<Rightarrow> find (\<lambda>x. act_id x = a) (activities db))"

definition referenced_kid :: "database \<Rightarrow> PointEntry \<Rightarrow> UserProfile option" where
  "referenced_kid db e = find (\<lambda>p. up_user_id p = pe_user_id e) (user_profiles db)"

definition pending_entries :: "database \<Rightarrow> string \<Rightarrow> PointEntry list" where
  "pending_entries db familyId =
     filter (\<lambda>e. pe_family_id e = familyId \<and> pe_status e = Pending) (point_entries db)"

text \<open>
  \<open>fetchPendingActivities\<close> as the specification words it: the pending entries of
  the family, newest first by submission time, each with the names of the rows it refers
  to and the two defaults where the row is missing.
\<close>

definition pending_view_spec :: "database \<Rightarrow> PointEntry \<Rightarrow> PendingActivity" where
  "pending_view_spec db e =
     \<lparr>pa_id = pe_id e,
      pa_activity_name = (case referenced_activity db e of None \<Rightarrow> ''Unknown Activity'' | Some a \<Rightarrow> act_name a),
      pa_kid_name = (case referenced_kid db e of None \<Rightarrow> ''Unknown Kid'' | Some p \<Rightarrow> up_display_name p),
      pa_points = pe_points e,
      pa_submitted_at = Some (pe_submitted_at e)\<rparr>"

definition pending_activities_spec :: "database \<Rightarrow> string \<Rightarrow> PendingActivity list" where
  "pending_activities_spec db familyId =
     map (pending_view_spec db) (sort_key (\<lambda>e. - pe_submitted_at e) (pending_entries db familyId))"

text \<open>
  The query of the dashboard page (app/parent/dashboard/page.tsx) for the same rows: it
  selects and orders by \<open>submitted_at\<close>.
\<close>

definition dashboard_page_query :: "string \<Rightarrow> unit pg_query" where
  "dashboard_page_query familyId =
     (query ''point_entries''
        (Select [Column ''id'', Column ''points'', Column ''submitted_at'',
                 Embedded ''activities'' False [''name''],
                 Embedded ''user_profiles'' False [''display_name'']])
        [(''family_id'', familyId), (''status'', ''pending'')])
     \<lparr>q_order := Some (''submitted_at'', False)\<rparr>"

text \<open>
  \<open>fetchKidsWithPoints\<close> as the specification words it: one Kid per user with role
  kid in the family, with the sum of the points of that user's approved entries.
\<close>

definition kids_with_points_spec :: "database \<Rightarrow> string \<Rightarrow> Kid list" where
  "kids_with_points_spec db familyId =
     map (\<lambda>p. \<lparr>kid_id = up_user_id p, kid_display_name = up_display_name p,
               kid_total_points =
                 sum_list (map pe_points
                   (filter (\<lambda>e. pe_user_id e = up_user_id p \<and> pe_status e = Approved) (point_entries db)))\<rparr>)
       (filter (\<lambda>p. up_family_id p = Some familyId \<and> up_role p = Kid) (user_profiles db))"

definition approved_entries :: "database \<Rightarrow> UserProfile \<Rightarrow> PointEntry list" where
  "approved_entries db p =
     filter (\<lambda>e. pe_user_id e = up_user_id p \<and> pe_status e = Approved) (point_entries db)"

text \<open>
  The foreign key of the schema (scripts: \<open>user_profiles.family_id REFERENCES families(id)\<close>)
  as a decision of the store on a profile row.
\<close>

definition foreign_key_violation :: js_error where
  "foreign_key_violation =
     \<lparr>message = ''insert or update on table user_profiles violates foreign key constraint'',
      code = Some ''23503''\<rparr>"

definition references_families :: "database \<Rightarrow> UserProfile \<Rightarrow> verdict" where
  "references_families db row =
     (case up_family_id row of
        None \<Rightarrow> Accepted
      | Some f \<Rightarrow> if list_ex (\<lambda>x. fam_id x = f) (families db) then Accepted
                  else Refused foreign_key_violation)"



section \<open>RestApiDataService (lib/services/data.service.ts)\<close>

text \<open>The service object; \<open>apiKey\<close> is stored by the constructor and never read.\<close>

record RestApiDataService =
  ds_baseUrl :: string
  ds_apiKey :: string

text \<open>
  \<open>apiListCall\<close> differs from \<open>apiCall\<close> in the envelope of an ok response, which
  carries \<open>result.count\<close>.
\<close>

definition api_list_envelope :: "'a list http_response awaited \<Rightarrow> 'a ApiListResponse" where
  "api_list_envelope r =
     (case r of
        Rejects e \<Rightarrow> \<lparr>data = None, error = Some (message e), count = None\<rparr>
      | Resolves response \<Rightarrow>
          (case json response of
             Inl e \<Rightarrow> \<lparr>data = None, error = Some (message e), count = None\<rparr>
           | Inr result \<Rightarrow>
               if \<not> ok response
               then \<lparr>data = None, error = Some (js_or (body_message result) ''API request failed''),
                     count = None\<rparr>
               else \<lparr>data = body_data result, error = None, count = body_count result\<rparr>))"

text \<open>
  Both calls read the token from \<open>localStorage\<close> (the parameter \<open>storage\<close>) when they
  are called, and return the envelope together with the requests they sent.
\<close>

definition data_request ::
  "RestApiDataService \<Rightarrow> (string \<rightharpoonup> string) \<Rightarrow> string \<Rightarrow> 'b RequestInit \<Rightarrow> 'b http_request" where
  "data_request svc storage endpoint options =
     (let token = storage ''auth_token''
      in \<lparr>req_url = ds_baseUrl svc @ endpoint,
          req_method = opt_method options,
          req_headers = spread_headers
            [(''Content-Type'', ''application/json''), (''Authorization'', bearer token)]
            (opt_headers options),
          req_body = opt_body options\<rparr>)"

definition data_apiCall ::
  "('b http_request \<Rightarrow> 'a http_response awaited) \<Rightarrow> RestApiDataService \<Rightarrow> (string \<rightharpoonup> string) \<Rightarrow>
   string \<Rightarrow> 'b RequestInit \<Rightarrow> 'a ApiResponse \<times> 'b http_request list" where
  "data_apiCall fetch svc storage endpoint options =
     (let request = data_request svc storage endpoint options
      in (api_envelope (fetch request), [request]))"

definition data_apiListCall ::
  "('b http_request \<Rightarrow> 'a list http_response awaited) \<Rightarrow> RestApiDataService \<Rightarrow> (string \<rightharpoonup> string) \<Rightarrow>
   string \<Rightarrow> 'b RequestInit \<Rightarrow> 'a ApiListResponse \<times> 'b http_request list" where
  "data_apiListCall fetch svc storage endpoint options =
     (let request = data_request svc storage endpoint options
      in (api_list_envelope (fetch request), [request]))"

text \<open>\<open>{ method: m, body: JSON.stringify(x) }\<close>; the text of the body is left as \<open>x\<close>.\<close>

definition with_body :: "string \<Rightarrow> 'b \<Rightarrow> 'b RequestInit" where
  "with_body m x = \<lparr>opt_method = Some m, opt_body = Some x, opt_headers = []\<rparr>"

record approve_body =
  ab_approved :: bool
  ab_approvedBy :: string

text \<open>\<open>userId ? `${path}?user_id=${userId}` : path\<close>.\<close>

definition with_user :: "string \<Rightarrow> string option \<Rightarrow> string" where
  "with_user path userId =
     (case userId of None \<Rightarrow> path | Some u \<Rightarrow> if u = [] then path else path @ ''?user_id='' @ u)"

definition rest_fetchKidsWithPoints ::
  "('b http_request \<Rightarrow> 'a list http_response awaited) \<Rightarrow> RestApiDataService \<Rightarrow> (string \<rightharpoonup> string) \<Rightarrow>
   string \<Rightarrow> 'a ApiListResponse \<times> 'b http_request list" where
  "rest_fetchKidsWithPoints fetch svc storage familyId =
     data_apiListCall fetch svc storage (''/families/'' @ familyId @ ''/kids-with-points'') no_options"

definition rest_fetchPendingActivities ::
  "('b http_request \<Rightarrow> 'a list http_response awaited) \<Rightarrow> RestApiDataService \<Rightarrow> (string \<rightharpoonup> string) \<Rightarrow>
   string \<Rightarrow> 'a ApiListResponse \<times> 'b http_request list" where
  "rest_fetchPendingActivities fetch svc storage familyId =
     data_apiListCall fetch svc storage (''/families/'' @ familyId @ ''/pending-activities'') no_options"

definition rest_fetchDashboardStats ::
  "('b http_request \<Rightarrow> 'a http_response awaited) \<Rightarrow> RestApiDataService \<Rightarrow> (string \<rightharpoonup> string) \<Rightarrow>
   string \<Rightarrow> 'a ApiResponse \<times> 'b http_request list" where
  "rest_fetchDashboardStats fetch svc storage familyId =
     data_apiCall fetch svc storage (''/families/'' @ familyId @ ''/dashboard-stats'') no_options"

definition rest_fetchActivities ::
  "('b http_request \<Rightarrow> 'a list http_response awaited) \<Rightarrow> RestApiDataService \<Rightarrow> (string \<rightharpoonup> string) \<Rightarrow>
   string \<Rightarrow> 'a ApiListResponse \<times> 'b http_request list" where
  "rest_fetchActivities fetch svc storage familyId =
     data_apiListCall fetch svc storage (''/families/'' @ familyId @ ''/activities'') no_options"

definition rest_createActivity ::
  "('b http_request \<Rightarrow> 'a http_response awaited) \<Rightarrow> RestApiDataService \<Rightarrow> (string \<rightharpoonup> string) \<Rightarrow>
   'b \<Rightarrow> 'a ApiResponse \<times> 'b http_request list" where
  "rest_createActivity fetch svc storage activity =
     data_apiCall fetch svc storage ''/activities'' (with_body ''POST'' activity)"

definition rest_updateActivity ::
  "('b http_request \<Rightarrow> 'a http_response awaited) \<Rightarrow> RestApiDataService \<Rightarrow> (string \<rightharpoonup> string) \<Rightarrow>
   string \<Rightarrow> 'b \<Rightarrow> 'a ApiResponse \<times> 'b http_request list" where
  "rest_updateActivity fetch svc storage ident updates =
     data_apiCall fetch svc storage (''/activities/'' @ ident) (with_body ''PUT'' updates)"

definition rest_deleteActivity ::
  "('b http_request \<Rightarrow> unit http_response awaited) \<Rightarrow> RestApiDataService \<Rightarrow> (string \<rightharpoonup> string) \<Rightarrow>
   string \<Rightarrow> unit ApiResponse \<times> 'b http_request list" where
  "rest_deleteActivity fetch svc storage ident =
     data_apiCall fetch svc storage (''/activities/'' @ ident)
       \<lparr>opt_method = Some ''DELETE'', opt_body = None, opt_headers = []\<rparr>"

definition rest_fetchRewards ::
  "('b http_request \<Rightarrow> 'a list http_response awaited) \<Rightarrow> RestApiDataService \<Rightarrow> (string \<rightharpoonup> string) \<Rightarrow>
   string \<Rightarrow> 'a ApiListResponse \<times> 'b http_request list" where
  "rest_fetchRewards fetch svc storage familyId =
     data_apiListCall fetch svc storage (''/families/'' @ familyId @ ''/rewards'') no_options"

definition rest_createReward ::
  "('b http_request \<Rightarrow> 'a http_response awaited) \<Rightarrow> RestApiDataService \<Rightarrow> (string \<rightharpoonup> string) \<Rightarrow>
   'b \<Rightarrow> 'a ApiResponse \<times> 'b http_request list" where
  "rest_createReward fetch svc storage reward =
     data_apiCall fetch svc storage ''/rewards'' (with_body ''POST'' reward)"

definition rest_updateReward ::
  "('b http_request \<Rightarrow> 'a http_response awaited) \<Rightarrow> RestApiDataService \<Rightarrow> (string \<rightharpoonup> string) \<Rightarrow>
   string \<Rightarrow> 'b \<Rightarrow> 'a ApiResponse \<times> 'b http_request list" where
  "rest_updateReward fetch svc storage ident updates =
     data_apiCall fetch svc storage (''/rewards/'' @ ident) (with_body ''PUT'' updates)"

definition rest_deleteReward ::
  "('b http_request \<Rightarrow> unit http_response awaited) \<Rightarrow> RestApiDataService \<Rightarrow> (string \<rightharpoonup> string) \<Rightarrow>
   string \<Rightarrow> unit ApiResponse \<times> 'b http_request list" where
  "rest_deleteReward fetch svc storage ident =
     data_apiCall fetch svc storage (''/rewards/'' @ ident)
       \<lparr>opt_method = Some ''DELETE'', opt_body = None, opt_headers = []\<rparr>"

definition rest_fetchPointEntries ::
  "('b http_request \<Rightarrow> 'a list http_response awaited) \<Rightarrow> RestApiDataService \<Rightarrow> (string \<rightharpoonup> string) \<Rightarrow>
   string \<Rightarrow> string option \<Rightarrow> 'a ApiListResponse \<times> 'b http_request list" where
  "rest_fetchPointEntries fetch svc storage familyId userId =
     data_apiListCall fetch svc storage
       (with_user (''/families/'' @ familyId @ ''/point-entries'') userId) no_options"

definition rest_createPointEntry ::
  "('b http_request \<Rightarrow> 'a http_response awaited) \<Rightarrow> RestApiDataService \<Rightarrow> (string \<rightharpoonup> string) \<Rightarrow>
   'b \<Rightarrow> 'a ApiResponse \<times> 'b http_request list" where
  "rest_createPointEntry fetch svc storage entry =
     data_apiCall fetch svc storage ''/point-entries'' (with_body ''POST'' entry)"

definition rest_updatePointEntry ::
  "('b http_request \<Rightarrow> 'a http_response awaited) \<Rightarrow> RestApiDataService \<Rightarrow> (string \<rightharpoonup> string) \<Rightarrow>
   string \<Rightarrow> 'b \<Rightarrow> 'a ApiResponse \<times> 'b http_request list" where
  "rest_updatePointEntry fetch svc storage ident updates =
     data_apiCall fetch svc storage (''/point-entries/'' @ ident) (with_body ''PUT'' updates)"

definition rest_approvePointEntry ::
  "(approve_body http_request \<Rightarrow> 'a http_response awaited) \<Rightarrow> RestApiDataService \<Rightarrow> (string \<rightharpoonup> string) \<Rightarrow>
   string \<Rightarrow> bool \<Rightarrow> string \<Rightarrow> 'a ApiResponse \<times> approve_body http_request list" where
  "rest_approvePointEntry fetch svc storage ident approved approvedBy =
     data_apiCall fetch svc storage (''/point-entries/'' @ ident @ ''/approve'')
       (with_body ''POST'' \<lparr>ab_approved = approved, ab_approvedBy = approvedBy\<rparr>)"

definition rest_fetchRewardRedemptions ::
  "('b http_request \<Rightarrow> 'a list http_response awaited) \<Rightarrow> RestApiDataService \<Rightarrow> (string \<rightharpoonup> string) \<Rightarrow>
   string \<Rightarrow> string option \<Rightarrow> 'a ApiListResponse \<times> 'b http_request list" where
  "rest_fetchRewardRedemptions fetch svc storage familyId userId =
     data_apiListCall fetch svc storage
       (with_user (''/families/'' @ familyId @ ''/reward-redemptions'') userId) no_options"

definition rest_createRewardRedemption ::
  "('b http_request \<Rightarrow> 'a http_response awaited) \<Rightarrow> RestApiDataService \<Rightarrow> (string \<rightharpoonup> string) \<Rightarrow>
   'b \<Rightarrow> 'a ApiResponse \<times> 'b http_request list" where
  "rest_createRewardRedemption fetch svc storage redemption =
     data_apiCall fetch svc storage ''/reward-redemptions'' (with_body ''POST'' redemption)"

definition rest_approveRewardRedemption ::
  "(approve_body http_request \<Rightarrow> 'a http_response awaited) \<Rightarrow> RestApiDataService \<Rightarrow> (string \<rightharpoonup> string) \<Rightarrow>
   string \<Rightarrow> bool \<Rightarrow> string \<Rightarrow> 'a ApiResponse \<times> approve_body http_request list" where
  "rest_approveRewardRedemption fetch svc storage ident approved approvedBy =
     data_apiCall fetch svc storage (''/reward-redemptions/'' @ ident @ ''/approve'')
       (with_body ''POST'' \<lparr>ab_approved = approved, ab_approvedBy = approvedBy\<rparr>)"

section \<open>Properties of an envelope and of a call\<close>

text \<open>The invariant of section 4.1: an envelope with an error has no data.\<close>

definition error_excludes_data :: "('a, 'z) ApiResponse_scheme \<Rightarrow> bool" where
  "error_excludes_data r = (error r \<noteq> None \<longrightarrow> data r = None)"



section \<open>Sample values\<close>

definition alice :: AuthUser where
  "alice = \<lparr>au_id = ''u1'', au_email = Some ''alice@example.org'', au_role = Some Parent,
            au_family_id = Some ''u1'', au_display_name = Some ''Alice''\<rparr>"

definition fresh_service :: "nat RestApiAuthService" where
  "fresh_service = \<lparr>baseUrl = ''https://api.test'', apiKey = ''key'', authStateCallbacks = [],
         localStorage = Map.empty, sent = [], notified = []\<rparr>"

definition signed_in_service :: "nat RestApiAuthService" where
  "signed_in_service = \<lparr>baseUrl = ''https://api.test'', apiKey = ''key'', authStateCallbacks = [7],
         localStorage = [''auth_token'' \<mapsto> ''old''], sent = [], notified = []\<rparr>"

definition rest_env :: env where
  "rest_env = [''NEXT_PUBLIC_SERVICE_TYPE'' \<mapsto> ''rest-api'',
               ''NEXT_PUBLIC_API_BASE_URL'' \<mapsto> ''http://localhost:8000/api'',
               ''NEXT_PUBLIC_API_KEY'' \<mapsto> ''k'']"

definition keyless_env :: env where
  "keyless_env = [''NEXT_PUBLIC_SERVICE_TYPE'' \<mapsto> ''rest-api'',
                  ''NEXT_PUBLIC_API_BASE_URL'' \<mapsto> ''http://localhost:8000/api'']"

definition firebase_env :: env where
  "firebase_env = [''NEXT_PUBLIC_SERVICE_TYPE'' \<mapsto> ''firebase'']"

definition sample_createClient :: "string \<Rightarrow> string \<Rightarrow> js_error + string \<times> string" where
  "sample_createClient url key = Inr (url, key)"

definition rest_factory :: "(string \<times> string) ServiceFactory" where
  "rest_factory =
     \<lparr>config = \<lparr>cfg_type = ''rest-api'', cfg_baseUrl = Some ''http://localhost:8000/api'',
                 cfg_apiKey = Some ''k''\<rparr>,
      authService = Some (0, NewRestApiAuthService ''http://localhost:8000/api'' ''k''),
      dataService = None, allocated = 1\<rparr>"

text \<open>The factory after its first \<open>getDataService()\<close> under \<open>rest_env\<close>.\<close>

definition data_factory :: "(string \<times> string) ServiceFactory" where
  "data_factory =
     \<lparr>config = \<lparr>cfg_type = ''rest-api'', cfg_baseUrl = Some ''http://localhost:8000/api'',
                 cfg_apiKey = Some ''k''\<rparr>,
      authService = None,
      dataService = Some (0, NewRestApiDataService ''http://localhost:8000/api'' ''k''), allocated = 1\<rparr>"

definition supabase_env :: env where
  "supabase_env = [''NEXT_PUBLIC_SUPABASE_URL'' \<mapsto> ''https://project.supabase.co'',
                   ''NEXT_PUBLIC_SUPABASE_ANON_KEY'' \<mapsto> ''anon'']"

definition bob_dishes_10 :: PointEntry where
  "bob_dishes_10 =
     \<lparr>pe_id = ''e1'', pe_family_id = ''f1'', pe_user_id = ''k1'', pe_activity_id = Some ''a1'',
      pe_points = 10, pe_status = Approved, pe_approved_by = Some ''u1'', pe_approved_at = Some 110,
      pe_submitted_at = 100\<rparr>"

definition bob_dishes_5 :: PointEntry where
  "bob_dishes_5 =
     \<lparr>pe_id = ''e2'', pe_family_id = ''f1'', pe_user_id = ''k1'', pe_activity_id = Some ''a1'',
      pe_points = 5, pe_status = Approved, pe_approved_by = Some ''u1'', pe_approved_at = Some 210,
      pe_submitted_at = 200\<rparr>"

definition bob_rejected_100 :: PointEntry where
  "bob_rejected_100 =
     \<lparr>pe_id = ''e3'', pe_family_id = ''f1'', pe_user_id = ''k1'', pe_activity_id = Some ''a1'',
      pe_points = 100, pe_status = Rejected, pe_approved_by = Some ''u1'', pe_approved_at = Some 310,
      pe_submitted_at = 300\<rparr>"

definition carol_pending_7 :: PointEntry where
  "carol_pending_7 =
     \<lparr>pe_id = ''e4'', pe_family_id = ''f1'', pe_user_id = ''k2'', pe_activity_id = Some ''a2'',
      pe_points = 7, pe_status = Pending, pe_approved_by = None, pe_approved_at = None,
      pe_submitted_at = 400\<rparr>"

definition bob_pending_3 :: PointEntry where
  "bob_pending_3 =
     \<lparr>pe_id = ''e5'', pe_family_id = ''f1'', pe_user_id = ''k1'', pe_activity_id = Some ''gone'',
      pe_points = 3, pe_status = Pending, pe_approved_by = None, pe_approved_at = None,
      pe_submitted_at = 500\<rparr>"

definition homework :: Activity where
  "homework = \<lparr>act_id = ''a2'', act_family_id = ''f1'', act_name = ''Homework'', act_points = 5\<rparr>"

text \<open>
  A family with a parent and two kids. Bob has approved entries of 10 and 5 and a rejected
  one of 100; Carol has one pending entry, and Bob one for an activity that is gone.
\<close>

definition family_db :: database where
  "family_db =
     \<lparr>families = [\<lparr>fam_id = ''f1'', fam_name = ''Alice'' @ [CHR 0x27] @ ''s Family'', fam_created_by = ''u1''\<rparr>],
      user_profiles =
        [\<lparr>up_user_id = ''u1'', up_email = ''alice@example.org'', up_display_name = ''Alice'',
          up_role = Parent, up_family_id = Some ''f1''\<rparr>,
         \<lparr>up_user_id = ''k1'', up_email = ''bob@example.org'', up_display_name = ''Bob'',
          up_role = Kid, up_family_id = Some ''f1''\<rparr>,
         \<lparr>up_user_id = ''k2'', up_email = ''carol@example.org'', up_display_name = ''Carol'',
          up_role = Kid, up_family_id = Some ''f1''\<rparr>],
      activities =
        [\<lparr>act_id = ''a1'', act_family_id = ''f1'', act_name = ''Dishes'', act_points = 10\<rparr>,
         homework],
      point_entries = [bob_dishes_10, bob_dishes_5, bob_rejected_100, carol_pending_7, bob_pending_3]\<rparr>"



definition data_service :: RestApiDataService where
  "data_service = \<lparr>ds_baseUrl = ''https://api.test'', ds_apiKey = ''key''\<rparr>"

definition token_storage :: "string \<rightharpoonup> string" where
  "token_storage = [''auth_token'' \<mapsto> ''tok'']"

definition network_down :: js_error where
  "network_down = \<lparr>message = ''Failed to fetch'', code = None\<rparr>"



definition server_error :: "unit http_request \<Rightarrow> Activity list http_response awaited" where
  "server_error request =
     Resolves \<lparr>ok = False, json = Inr \<lparr>body_message = None, body_data = None, body_count = None\<rparr>\<rparr>"


definition auth_down :: "(string \<times> string, auth_result, unit) call" where
  "auth_down credentials s = (Rejects network_down, s)"

definition activities_down :: "(unit pg_query, Activity list pg_result, unit) call" where
  "activities_down q s = (Rejects network_down, s)"

definition signin_offline :: "auth_body http_request \<Rightarrow> signin_data http_response awaited" where
  "signin_offline request = Rejects network_down"


definition first_throws :: "nat listeners" where
  "first_throws callback event session =
     (if callback = 1 then Some \<lparr>message = ''listener failed'', code = None\<rparr> else None)"

section \<open>Listeners of the remote auth service\<close>














text \<open>
  A listener that throws stops the loop: the listeners registered after it are not
  called, and \<open>signOut\<close> rejects with what was thrown.
\<close>

lemma signOut_listener_throws:
  "fst (rest_signOut_throwing first_throws (onAuthStateChange 2 (onAuthStateChange 1 fresh_service))) =
     Rejects \<lparr>message = ''listener failed'', code = None\<rparr> \<and>
   received_since (onAuthStateChange 2 (onAuthStateChange 1 fresh_service))
     (snd (rest_signOut_throwing first_throws (onAuthStateChange 2 (onAuthStateChange 1 fresh_service)))) 2 = []"
  by (simp add: rest_signOut_throwing_def notifyAuthStateChange_throwing_def first_throws_def
      onAuthStateChange_def fresh_service_def received_since_def)




section \<open>Sign-in of the remote auth service\<close>

text \<open>
  Claim C10. When the sign-in request yields no data (the transport failed, the body was
  not JSON, the response was not ok or carried no data), \<open>signIn\<close> of the remote auth
  service returns \<open>{data: null, error}\<close> with the error of the API call, and leaves the
  stored token, the listeners and the calls made to them as they were. When it yields
  data, the token is stored under \<open>auth_token\<close> and each listener is called once with
  \<open>SIGNED_IN\<close> and the user.
\<close>

theorem C10_signIn_frame:
  "(let api = fst (auth_apiCall fetch ''/auth/signin''
                \<lparr>opt_method = Some ''POST'', opt_body = Some (SignInBody email password), opt_headers = []\<rparr> s);
        r = rest_signIn fetch email password s
    in (data api = None \<longrightarrow>
          fst r = \<lparr>data = None, error = error api\<rparr> \<and>
          localStorage (snd r) = localStorage s \<and>
          notified (snd r) = notified s \<and>
          authStateCallbacks (snd r) = authStateCallbacks s) \<and>
       (\<forall>d. data api = Some d \<longrightarrow>
          fst r = \<lparr>data = Some (sd_user d), error = None\<rparr> \<and>
          localStorage (snd r) = (localStorage s)(''auth_token'' \<mapsto> sd_token d) \<and>
          notified (snd r) = notified s @
            map (\<lambda>callback. (callback, ''SIGNED_IN'', Some \<lparr>user = Some (sd_user d)\<rparr>))
              (authStateCallbacks s)))"
  by (cases "auth_apiCall fetch ''/auth/signin''
                \<lparr>opt_method = Some ''POST'', opt_body = Some (SignInBody email password), opt_headers = []\<rparr> s")
     (auto simp: rest_signIn_def Let_def notifyAuthStateChange_def auth_apiCall_def)

theorem C10_signIn_frame_witness:
  "fst (rest_signIn (\<lambda>request. Rejects \<lparr>message = ''Failed to fetch'', code = None\<rparr>)
          ''a@b.c'' ''pw'' signed_in_service)
     = \<lparr>data = None, error = Some ''Failed to fetch''\<rparr> \<and>
   localStorage (snd (rest_signIn (\<lambda>request. Rejects \<lparr>message = ''Failed to fetch'', code = None\<rparr>)
          ''a@b.c'' ''pw'' signed_in_service))
     = localStorage signed_in_service \<and>
   notified (snd (rest_signIn (\<lambda>request. Rejects \<lparr>message = ''Failed to fetch'', code = None\<rparr>)
          ''a@b.c'' ''pw'' signed_in_service))
     = notified signed_in_service \<and>
   fst (rest_signIn (\<lambda>request. Resolves \<lparr>ok = False,
          json = Inr \<lparr>body_message = Some ''Invalid credentials'', body_data = None, body_count = None\<rparr>\<rparr>)
        ''a@b.c'' ''pw'' signed_in_service)
     = \<lparr>data = None, error = Some ''Invalid credentials''\<rparr> \<and>
   notified (snd (rest_signIn (\<lambda>request. Resolves \<lparr>ok = True,
          json = Inr \<lparr>body_message = None, body_data = Some \<lparr>sd_user = alice, sd_token = ''t1''\<rparr>,
                      body_count = None\<rparr>\<rparr>) ''a@b.c'' ''pw'' signed_in_service))
     = [(7, ''SIGNED_IN'', Some \<lparr>user = Some alice\<rparr>)] \<and>
   localStorage (snd (rest_signIn (\<lambda>request. Resolves \<lparr>ok = True,
          json = Inr \<lparr>body_message = None, body_data = Some \<lparr>sd_user = alice, sd_token = ''t1''\<rparr>,
                      body_count = None\<rparr>\<rparr>) ''a@b.c'' ''pw'' signed_in_service)) ''auth_token''
     = Some ''t1''"
  using
    C10_signIn_frame [of "\<lambda>request. Rejects \<lparr>message = ''Failed to fetch'', code = None\<rparr>"
      "''a@b.c''" "''pw''" signed_in_service]
    C10_signIn_frame [of "\<lambda>request. Resolves \<lparr>ok = False,
          json = Inr \<lparr>body_message = Some ''Invalid credentials'', body_data = None, body_count = None\<rparr>\<rparr>"
      "''a@b.c''" "''pw''" signed_in_service]
    C10_signIn_frame [of "\<lambda>request. Resolves \<lparr>ok = True,
          json = Inr \<lparr>body_message = None, body_data = Some \<lparr>sd_user = alice, sd_token = ''t1''\<rparr>,
                      body_count = None\<rparr>\<rparr>" "''a@b.c''" "''pw''" signed_in_service]
  by (simp add: Let_def auth_apiCall_def api_envelope_def signed_in_service_def)

section \<open>The service factory caches, fails late and resets\<close>

lemma getAuthService_cached:
  "getAuthService cc env f = (Inr svc, f') \<Longrightarrow> authService f' = Some svc"
  by (auto simp: getAuthService_def Let_def split: option.splits sum.splits if_splits prod.splits)

lemma getDataService_cached:
  "getDataService cc env f = (Inr svc, f') \<Longrightarrow> dataService f' = Some svc"
  by (auto simp: getDataService_def Let_def split: option.splits sum.splits if_splits prod.splits)

lemma getAuthService_hit: "authService f = Some svc \<Longrightarrow> getAuthService cc env f = (Inr svc, f)"
  by (simp add: getAuthService_def)

lemma getDataService_hit: "dataService f = Some svc \<Longrightarrow> getDataService cc env f = (Inr svc, f)"
  by (simp add: getDataService_def)

lemma getDataService_keeps_auth: "authService (snd (getDataService cc env f)) = authService f"
  by (auto simp: getDataService_def Let_def split: option.splits sum.splits if_splits prod.splits)

lemma getAuthService_keeps_data: "dataService (snd (getAuthService cc env f)) = dataService f"
  by (auto simp: getAuthService_def Let_def split: option.splits sum.splits if_splits prod.splits)


lemma factory_ok_new: "factory_ok (new_ServiceFactory env)"
  by (simp add: factory_ok_def new_ServiceFactory_def)

lemma factory_ok_reset: "factory_ok (reset env f)"
  by (simp add: factory_ok_def reset_def)

lemma factory_ok_getAuthService: "factory_ok f \<Longrightarrow> factory_ok (snd (getAuthService cc env f))"
  by (auto simp: factory_ok_def getAuthService_def Let_def split: option.splits sum.splits if_splits prod.splits)

lemma factory_ok_getDataService: "factory_ok f \<Longrightarrow> factory_ok (snd (getDataService cc env f))"
  by (auto simp: factory_ok_def getDataService_def Let_def split: option.splits sum.splits if_splits prod.splits)

lemma getAuthService_new_address:
  "authService f = None \<Longrightarrow> getAuthService cc env f = (Inr a, f') \<Longrightarrow>
     fst a = allocated f \<and> allocated f' = Suc (allocated f)"
  by (auto simp: getAuthService_def Let_def split: option.splits sum.splits if_splits prod.splits)

lemma getDataService_new_address:
  "dataService f = None \<Longrightarrow> getDataService cc env f = (Inr a, f') \<Longrightarrow>
     fst a = allocated f \<and> allocated f' = Suc (allocated f)"
  by (auto simp: getDataService_def Let_def split: option.splits sum.splits if_splits prod.splits)

lemma unsupported_type:
  assumes "env ''NEXT_PUBLIC_SERVICE_TYPE'' = Some t" "t \<noteq> []" "t \<noteq> ''supabase''" "t \<noteq> ''rest-api''"
  shows "getAuthService cc env' (new_ServiceFactory env) = (Inl (unsupported_service_type t), new_ServiceFactory env)"
    and "getDataService cc env' (new_ServiceFactory env) = (Inl (unsupported_service_type t), new_ServiceFactory env)"
  using assms
  by (simp_all add: getAuthService_def getDataService_def new_ServiceFactory_def getServiceConfig_def)

lemma rest_missing:
  assumes "env ''NEXT_PUBLIC_SERVICE_TYPE'' = Some ''rest-api''"
    and "js_falsy (env ''NEXT_PUBLIC_API_BASE_URL'') \<or> js_falsy (env ''NEXT_PUBLIC_API_KEY'')"
  shows "getAuthService cc env' (new_ServiceFactory env) = (Inl rest_config_missing, new_ServiceFactory env)"
    and "getDataService cc env' (new_ServiceFactory env) = (Inl rest_config_missing, new_ServiceFactory env)"
proof -
  have c: "cfg_type (getServiceConfig env) = ''rest-api''"
    using assms(1) by (simp add: getServiceConfig_def)
  show "getAuthService cc env' (new_ServiceFactory env) = (Inl rest_config_missing, new_ServiceFactory env)"
    using assms(2) c
    by (cases "env ''NEXT_PUBLIC_API_BASE_URL''"; cases "env ''NEXT_PUBLIC_API_KEY''")
       (auto simp: getAuthService_def new_ServiceFactory_def getServiceConfig_def)
  show "getDataService cc env' (new_ServiceFactory env) = (Inl rest_config_missing, new_ServiceFactory env)"
    using assms(2) c
    by (cases "env ''NEXT_PUBLIC_API_BASE_URL''"; cases "env ''NEXT_PUBLIC_API_KEY''")
       (auto simp: getDataService_def new_ServiceFactory_def getServiceConfig_def)
qed

lemma reset_as_new: "reset env f = (new_ServiceFactory env)\<lparr>allocated := allocated f\<rparr>"
  by (simp add: reset_def new_ServiceFactory_def)

text \<open>A getter that finds its cache empty creates the service from \<open>this.config\<close>.\<close>

lemma getAuthService_creates_rest:
  assumes "authService f = None" and "cfg_type (config f) = ''rest-api''"
    and "cfg_baseUrl (config f) = Some url" and "cfg_apiKey (config f) = Some key"
    and "url \<noteq> []" and "key \<noteq> []"
  shows "getAuthService cc env1 f =
           (Inr (allocated f, NewRestApiAuthService url key),
            f\<lparr>authService := Some (allocated f, NewRestApiAuthService url key),
              allocated := Suc (allocated f)\<rparr>)"
  using assms by (simp add: getAuthService_def Let_def)

lemma getDataService_creates_rest:
  assumes "dataService f = None" and "cfg_type (config f) = ''rest-api''"
    and "cfg_baseUrl (config f) = Some url" and "cfg_apiKey (config f) = Some key"
    and "url \<noteq> []" and "key \<noteq> []"
  shows "getDataService cc env1 f =
           (Inr (allocated f, NewRestApiDataService url key),
            f\<lparr>dataService := Some (allocated f, NewRestApiDataService url key),
              allocated := Suc (allocated f)\<rparr>)"
  using assms by (simp add: getDataService_def Let_def)

lemma getAuthService_creates_supabase:
  assumes "authService f = None" and "cfg_type (config f) = ''supabase''"
    and "createSupabaseClient cc env1 = Inr client"
  shows "getAuthService cc env1 f =
           (Inr (allocated f, NewSupabaseAuthService client),
            f\<lparr>authService := Some (allocated f, NewSupabaseAuthService client),
              allocated := Suc (allocated f)\<rparr>)"
  using assms by (simp add: getAuthService_def Let_def)

lemma getDataService_creates_supabase:
  assumes "dataService f = None" and "cfg_type (config f) = ''supabase''"
    and "createSupabaseClient cc env1 = Inr client"
  shows "getDataService cc env1 f =
           (Inr (allocated f, NewSupabaseDataService client),
            f\<lparr>dataService := Some (allocated f, NewSupabaseDataService client),
              allocated := Suc (allocated f)\<rparr>)"
  using assms by (simp add: getDataService_def Let_def)

text \<open>
  The getters do not read the configuration: the environment at the call matters only
  through the Supabase URL and key, when the configured type is \<open>supabase\<close>.
\<close>

lemma getters_read_config_of_factory:
  assumes "cfg_type (config f) \<noteq> ''supabase'' \<or> createSupabaseClient cc env1 = createSupabaseClient cc env2"
  shows "getAuthService cc env1 f = getAuthService cc env2 f"
    and "getDataService cc env1 f = getDataService cc env2 f"
  using assms by (auto simp: getAuthService_def getDataService_def split: option.splits)

text \<open>
  Claim C9, as amended. A getter that finds its cache empty creates the service that
  the factory's configuration names, as a new object, and caches it; once a getter has
  returned a service, every later call of that getter returns the same object and leaves
  the factory as it is, whatever the environment then says and whether or not the other
  getter ran in between. A factory constructed for an unsupported service type, or for
  \<open>rest-api\<close> with the base URL or the key missing or empty, is constructed all the
  same, and both getters throw on it. \<open>reset\<close> re-reads the configuration and leaves
  the factory as one newly constructed from the environment, with both caches empty, so
  the next successful getter call creates a new object, distinct from the one cached
  before; the getters themselves read the configuration of the factory, not the
  environment.
\<close>

theorem C9_factory:
  "(\<forall>a. authService f = Some a \<longrightarrow> getAuthService cc env1 f = (Inr a, f)) \<and>
   (\<forall>d. dataService f = Some d \<longrightarrow> getDataService cc env1 f = (Inr d, f)) \<and>
   (\<forall>url key. cfg_type (config f) = ''rest-api'' \<and> cfg_baseUrl (config f) = Some url \<and>
        cfg_apiKey (config f) = Some key \<and> url \<noteq> [] \<and> key \<noteq> [] \<longrightarrow>
      (authService f = None \<longrightarrow>
         getAuthService cc env1 f =
           (Inr (allocated f, NewRestApiAuthService url key),
            f\<lparr>authService := Some (allocated f, NewRestApiAuthService url key),
              allocated := Suc (allocated f)\<rparr>)) \<and>
      (dataService f = None \<longrightarrow>
         getDataService cc env1 f =
           (Inr (allocated f, NewRestApiDataService url key),
            f\<lparr>dataService := Some (allocated f, NewRestApiDataService url key),
              allocated := Suc (allocated f)\<rparr>))) \<and>
   (\<forall>client. cfg_type (config f) = ''supabase'' \<and> createSupabaseClient cc env1 = Inr client \<longrightarrow>
      (authService f = None \<longrightarrow>
         getAuthService cc env1 f =
           (Inr (allocated f, NewSupabaseAuthService client),
            f\<lparr>authService := Some (allocated f, NewSupabaseAuthService client),
              allocated := Suc (allocated f)\<rparr>)) \<and>
      (dataService f = None \<longrightarrow>
         getDataService cc env1 f =
           (Inr (allocated f, NewSupabaseDataService client),
            f\<lparr>dataService := Some (allocated f, NewSupabaseDataService client),
              allocated := Suc (allocated f)\<rparr>))) \<and>
   (\<forall>a f'. getAuthService cc env f = (Inr a, f') \<longrightarrow>
      getAuthService cc env1 f' = (Inr a, f') \<and>
      getAuthService cc env2 (snd (getDataService cc env1 f')) = (Inr a, snd (getDataService cc env1 f'))) \<and>
   (\<forall>d f'. getDataService cc env f = (Inr d, f') \<longrightarrow>
      getDataService cc env1 f' = (Inr d, f') \<and>
      getDataService cc env2 (snd (getAuthService cc env1 f')) = (Inr d, snd (getAuthService cc env1 f'))) \<and>
   (\<forall>t. env ''NEXT_PUBLIC_SERVICE_TYPE'' = Some t \<and> t \<noteq> [] \<and> t \<noteq> ''supabase'' \<and> t \<noteq> ''rest-api'' \<longrightarrow>
      getAuthService cc env1 (new_ServiceFactory env) = (Inl (unsupported_service_type t), new_ServiceFactory env) \<and>
      getDataService cc env1 (new_ServiceFactory env) = (Inl (unsupported_service_type t), new_ServiceFactory env)) \<and>
   (env ''NEXT_PUBLIC_SERVICE_TYPE'' = Some ''rest-api'' \<and>
    (js_falsy (env ''NEXT_PUBLIC_API_BASE_URL'') \<or> js_falsy (env ''NEXT_PUBLIC_API_KEY'')) \<longrightarrow>
      getAuthService cc env1 (new_ServiceFactory env) = (Inl rest_config_missing, new_ServiceFactory env) \<and>
      getDataService cc env1 (new_ServiceFactory env) = (Inl rest_config_missing, new_ServiceFactory env)) \<and>
   reset env f = (new_ServiceFactory env)\<lparr>allocated := allocated f\<rparr> \<and>
   (\<forall>a f'. factory_ok f \<and> getAuthService cc env1 (reset env f) = (Inr a, f') \<longrightarrow>
      fst a = allocated f \<and> authService f \<noteq> Some a \<and> authService f' = Some a) \<and>
   (\<forall>d f'. factory_ok f \<and> getDataService cc env1 (reset env f) = (Inr d, f') \<longrightarrow>
      fst d = allocated f \<and> dataService f \<noteq> Some d \<and> dataService f' = Some d) \<and>
   (cfg_type (config f) \<noteq> ''supabase'' \<or> createSupabaseClient cc env1 = createSupabaseClient cc env2 \<longrightarrow>
      getAuthService cc env1 f = getAuthService cc env2 f \<and>
      getDataService cc env1 f = getDataService cc env2 f)"
proof -
  have h1: "\<forall>a. authService f = Some a \<longrightarrow> getAuthService cc env1 f = (Inr a, f)"
    by (simp add: getAuthService_hit)
  have h2: "\<forall>d. dataService f = Some d \<longrightarrow> getDataService cc env1 f = (Inr d, f)"
    by (simp add: getDataService_hit)
  have n1: "\<forall>url key. cfg_type (config f) = ''rest-api'' \<and> cfg_baseUrl (config f) = Some url \<and>
        cfg_apiKey (config f) = Some key \<and> url \<noteq> [] \<and> key \<noteq> [] \<longrightarrow>
      (authService f = None \<longrightarrow>
         getAuthService cc env1 f =
           (Inr (allocated f, NewRestApiAuthService url key),
            f\<lparr>authService := Some (allocated f, NewRestApiAuthService url key),
              allocated := Suc (allocated f)\<rparr>)) \<and>
      (dataService f = None \<longrightarrow>
         getDataService cc env1 f =
           (Inr (allocated f, NewRestApiDataService url key),
            f\<lparr>dataService := Some (allocated f, NewRestApiDataService url key),
              allocated := Suc (allocated f)\<rparr>))"
    by (simp add: getAuthService_creates_rest getDataService_creates_rest)
  have n2: "\<forall>client. cfg_type (config f) = ''supabase'' \<and> createSupabaseClient cc env1 = Inr client \<longrightarrow>
      (authService f = None \<longrightarrow>
         getAuthService cc env1 f =
           (Inr (allocated f, NewSupabaseAuthService client),
            f\<lparr>authService := Some (allocated f, NewSupabaseAuthService client),
              allocated := Suc (allocated f)\<rparr>)) \<and>
      (dataService f = None \<longrightarrow>
         getDataService cc env1 f =
           (Inr (allocated f, NewSupabaseDataService client),
            f\<lparr>dataService := Some (allocated f, NewSupabaseDataService client),
              allocated := Suc (allocated f)\<rparr>))"
    by (simp add: getAuthService_creates_supabase getDataService_creates_supabase)
  have c1: "\<forall>a f'. getAuthService cc env f = (Inr a, f') \<longrightarrow>
      getAuthService cc env1 f' = (Inr a, f') \<and>
      getAuthService cc env2 (snd (getDataService cc env1 f')) = (Inr a, snd (getDataService cc env1 f'))"
  proof (intro allI impI)
    fix a f' assume "getAuthService cc env f = (Inr a, f')"
    then have "authService f' = Some a" by (rule getAuthService_cached)
    then show "getAuthService cc env1 f' = (Inr a, f') \<and>
      getAuthService cc env2 (snd (getDataService cc env1 f')) = (Inr a, snd (getDataService cc env1 f'))"
      by (simp add: getAuthService_hit getDataService_keeps_auth)
  qed
  have c2: "\<forall>d f'. getDataService cc env f = (Inr d, f') \<longrightarrow>
      getDataService cc env1 f' = (Inr d, f') \<and>
      getDataService cc env2 (snd (getAuthService cc env1 f')) = (Inr d, snd (getAuthService cc env1 f'))"
  proof (intro allI impI)
    fix d f' assume "getDataService cc env f = (Inr d, f')"
    then have "dataService f' = Some d" by (rule getDataService_cached)
    then show "getDataService cc env1 f' = (Inr d, f') \<and>
      getDataService cc env2 (snd (getAuthService cc env1 f')) = (Inr d, snd (getAuthService cc env1 f'))"
      by (simp add: getDataService_hit getAuthService_keeps_data)
  qed
  have l1: "\<forall>t. env ''NEXT_PUBLIC_SERVICE_TYPE'' = Some t \<and> t \<noteq> [] \<and> t \<noteq> ''supabase'' \<and> t \<noteq> ''rest-api'' \<longrightarrow>
      getAuthService cc env1 (new_ServiceFactory env) = (Inl (unsupported_service_type t), new_ServiceFactory env) \<and>
      getDataService cc env1 (new_ServiceFactory env) = (Inl (unsupported_service_type t), new_ServiceFactory env)"
    using unsupported_type[of env _ cc env1] by blast
  have l2: "env ''NEXT_PUBLIC_SERVICE_TYPE'' = Some ''rest-api'' \<and>
    (js_falsy (env ''NEXT_PUBLIC_API_BASE_URL'') \<or> js_falsy (env ''NEXT_PUBLIC_API_KEY'')) \<longrightarrow>
      getAuthService cc env1 (new_ServiceFactory env) = (Inl rest_config_missing, new_ServiceFactory env) \<and>
      getDataService cc env1 (new_ServiceFactory env) = (Inl rest_config_missing, new_ServiceFactory env)"
    using rest_missing[of env cc env1] by blast
  have r0: "reset env f = (new_ServiceFactory env)\<lparr>allocated := allocated f\<rparr>"
    by (rule reset_as_new)
  have r1: "\<forall>a f'. factory_ok f \<and> getAuthService cc env1 (reset env f) = (Inr a, f') \<longrightarrow>
      fst a = allocated f \<and> authService f \<noteq> Some a \<and> authService f' = Some a"
  proof (intro allI impI)
    fix a f' assume h: "factory_ok f \<and> getAuthService cc env1 (reset env f) = (Inr a, f')"
    then have ok: "factory_ok f" and g: "getAuthService cc env1 (reset env f) = (Inr a, f')" by simp_all
    have "authService (reset env f) = None" by (simp add: reset_def)
    from getAuthService_new_address[OF this g] have "fst a = allocated f" by (simp add: reset_def)
    moreover from ok this have "authService f \<noteq> Some a"
      by (auto simp: factory_ok_def split: option.splits)
    moreover from g have "authService f' = Some a" by (rule getAuthService_cached)
    ultimately show "fst a = allocated f \<and> authService f \<noteq> Some a \<and> authService f' = Some a" by simp
  qed
  have r2: "\<forall>d f'. factory_ok f \<and> getDataService cc env1 (reset env f) = (Inr d, f') \<longrightarrow>
      fst d = allocated f \<and> dataService f \<noteq> Some d \<and> dataService f' = Some d"
  proof (intro allI impI)
    fix d f' assume h: "factory_ok f \<and> getDataService cc env1 (reset env f) = (Inr d, f')"
    then have ok: "factory_ok f" and g: "getDataService cc env1 (reset env f) = (Inr d, f')" by simp_all
    have "dataService (reset env f) = None" by (simp add: reset_def)
    from getDataService_new_address[OF this g] have "fst d = allocated f" by (simp add: reset_def)
    moreover from ok this have "dataService f \<noteq> Some d"
      by (auto simp: factory_ok_def split: option.splits)
    moreover from g have "dataService f' = Some d" by (rule getDataService_cached)
    ultimately show "fst d = allocated f \<and> dataService f \<noteq> Some d \<and> dataService f' = Some d" by simp
  qed
  have e1: "cfg_type (config f) \<noteq> ''supabase'' \<or> createSupabaseClient cc env1 = createSupabaseClient cc env2 \<longrightarrow>
      getAuthService cc env1 f = getAuthService cc env2 f \<and>
      getDataService cc env1 f = getDataService cc env2 f"
    using getters_read_config_of_factory[of f cc env1 env2] by blast
  show ?thesis
    by (rule conjI[OF h1 conjI[OF h2 conjI[OF n1 conjI[OF n2 conjI[OF c1 conjI[OF c2
          conjI[OF l1 conjI[OF l2 conjI[OF r0 conjI[OF r1 conjI[OF r2 e1]]]]]]]]]]])
qed

lemma rest_first:
  "getAuthService sample_createClient rest_env (new_ServiceFactory rest_env) =
     (Inr (0, NewRestApiAuthService ''http://localhost:8000/api'' ''k''), rest_factory)"
  by (simp add: getAuthService_def new_ServiceFactory_def getServiceConfig_def rest_env_def rest_factory_def Let_def)

lemma rest_after_reset:
  "getAuthService sample_createClient rest_env (reset rest_env rest_factory) =
     (Inr (1, NewRestApiAuthService ''http://localhost:8000/api'' ''k''),
      rest_factory\<lparr>authService := Some (1, NewRestApiAuthService ''http://localhost:8000/api'' ''k''),
        allocated := 2\<rparr>)"
  by (simp add: getAuthService_def reset_def getServiceConfig_def rest_env_def rest_factory_def Let_def numeral_2_eq_2)

lemma reset_data_factory:
  "reset rest_env data_factory = data_factory\<lparr>dataService := None\<rparr>"
  by (simp add: reset_def data_factory_def getServiceConfig_def rest_env_def)

theorem C9_factory_witness:
  "getDataService sample_createClient firebase_env (new_ServiceFactory rest_env) =
     (Inr (0, NewRestApiDataService ''http://localhost:8000/api'' ''k''), data_factory) \<and>
   getDataService sample_createClient firebase_env data_factory =
     (Inr (0, NewRestApiDataService ''http://localhost:8000/api'' ''k''), data_factory) \<and>
   getDataService sample_createClient firebase_env (reset rest_env data_factory) =
     (Inr (1, NewRestApiDataService ''http://localhost:8000/api'' ''k''),
      data_factory\<lparr>dataService := Some (1, NewRestApiDataService ''http://localhost:8000/api'' ''k''),
        allocated := 2\<rparr>) \<and>
   getAuthService sample_createClient rest_env (new_ServiceFactory rest_env) =
     (Inr (0, NewRestApiAuthService ''http://localhost:8000/api'' ''k''), rest_factory) \<and>
   getAuthService sample_createClient firebase_env rest_factory =
     (Inr (0, NewRestApiAuthService ''http://localhost:8000/api'' ''k''), rest_factory) \<and>
   getAuthService sample_createClient supabase_env (new_ServiceFactory supabase_env) =
     (Inr (0, NewSupabaseAuthService (''https://project.supabase.co'', ''anon'')),
      (new_ServiceFactory supabase_env)
        \<lparr>authService := Some (0, NewSupabaseAuthService (''https://project.supabase.co'', ''anon'')),
         allocated := 1\<rparr>) \<and>
   getAuthService sample_createClient rest_env (new_ServiceFactory firebase_env) =
     (Inl (unsupported_service_type ''firebase''), new_ServiceFactory firebase_env) \<and>
   getDataService sample_createClient rest_env (new_ServiceFactory keyless_env) =
     (Inl rest_config_missing, new_ServiceFactory keyless_env) \<and>
   factory_ok rest_factory \<and>
   fst (getAuthService sample_createClient rest_env (reset rest_env rest_factory)) =
     Inr (1, NewRestApiAuthService ''http://localhost:8000/api'' ''k'') \<and>
   authService rest_factory \<noteq> Some (1, NewRestApiAuthService ''http://localhost:8000/api'' ''k'')"
proof -
  note a = C9_factory [where cc = sample_createClient and env = rest_env
      and f = "new_ServiceFactory rest_env" and ?env1.0 = firebase_env and ?env2.0 = rest_env]
  note b = C9_factory [where cc = sample_createClient and env = firebase_env
      and f = "new_ServiceFactory firebase_env" and ?env1.0 = rest_env and ?env2.0 = rest_env]
  note c = C9_factory [where cc = sample_createClient and env = keyless_env
      and f = "new_ServiceFactory keyless_env" and ?env1.0 = rest_env and ?env2.0 = rest_env]
  note d = C9_factory [where cc = sample_createClient and env = rest_env
      and f = rest_factory and ?env1.0 = rest_env and ?env2.0 = rest_env]
  note e = C9_factory [where cc = sample_createClient and env = rest_env
      and f = data_factory and ?env1.0 = firebase_env and ?env2.0 = rest_env]
  note g = C9_factory [where cc = sample_createClient and env = rest_env
      and f = "reset rest_env data_factory" and ?env1.0 = firebase_env and ?env2.0 = rest_env]
  note h = C9_factory [where cc = sample_createClient and env = supabase_env
      and f = "new_ServiceFactory supabase_env" and ?env1.0 = supabase_env and ?env2.0 = rest_env]
  have ok: "factory_ok rest_factory" by (simp add: factory_ok_def rest_factory_def)
  have new_rest: "cfg_type (config (new_ServiceFactory rest_env :: (string \<times> string) ServiceFactory)) = ''rest-api'' \<and>
      cfg_baseUrl (config (new_ServiceFactory rest_env :: (string \<times> string) ServiceFactory)) = Some ''http://localhost:8000/api'' \<and>
      cfg_apiKey (config (new_ServiceFactory rest_env :: (string \<times> string) ServiceFactory)) = Some ''k'' \<and>
      ''http://localhost:8000/api'' \<noteq> [] \<and> ''k'' \<noteq> []"
    by (simp add: new_ServiceFactory_def getServiceConfig_def rest_env_def)
  have new_none: "dataService (new_ServiceFactory rest_env :: (string \<times> string) ServiceFactory) = None"
    by (simp add: new_ServiceFactory_def)
  from a new_rest new_none
  have "getDataService sample_createClient firebase_env (new_ServiceFactory rest_env) =
     (Inr (allocated (new_ServiceFactory rest_env :: (string \<times> string) ServiceFactory),
           NewRestApiDataService ''http://localhost:8000/api'' ''k''),
      (new_ServiceFactory rest_env)
        \<lparr>dataService := Some (allocated (new_ServiceFactory rest_env :: (string \<times> string) ServiceFactory),
                               NewRestApiDataService ''http://localhost:8000/api'' ''k''),
         allocated := Suc (allocated (new_ServiceFactory rest_env :: (string \<times> string) ServiceFactory))\<rparr>)"
    by blast
  then have 1: "getDataService sample_createClient firebase_env (new_ServiceFactory rest_env) =
     (Inr (0, NewRestApiDataService ''http://localhost:8000/api'' ''k''), data_factory)"
    by (simp add: new_ServiceFactory_def getServiceConfig_def rest_env_def data_factory_def)
  have "dataService data_factory = Some (0, NewRestApiDataService ''http://localhost:8000/api'' ''k'')"
    by (simp add: data_factory_def)
  with e have 2: "getDataService sample_createClient firebase_env data_factory =
     (Inr (0, NewRestApiDataService ''http://localhost:8000/api'' ''k''), data_factory)"
    by blast
  have reset_rest: "cfg_type (config (reset rest_env data_factory)) = ''rest-api'' \<and>
      cfg_baseUrl (config (reset rest_env data_factory)) = Some ''http://localhost:8000/api'' \<and>
      cfg_apiKey (config (reset rest_env data_factory)) = Some ''k'' \<and>
      ''http://localhost:8000/api'' \<noteq> [] \<and> ''k'' \<noteq> []"
    by (simp add: reset_def getServiceConfig_def rest_env_def)
  have reset_none: "dataService (reset rest_env data_factory) = None"
    by (simp add: reset_def)
  from g reset_rest reset_none
  have "getDataService sample_createClient firebase_env (reset rest_env data_factory) =
     (Inr (allocated (reset rest_env data_factory), NewRestApiDataService ''http://localhost:8000/api'' ''k''),
      (reset rest_env data_factory)
        \<lparr>dataService := Some (allocated (reset rest_env data_factory),
                               NewRestApiDataService ''http://localhost:8000/api'' ''k''),
         allocated := Suc (allocated (reset rest_env data_factory))\<rparr>)"
    by blast
  then have 3: "getDataService sample_createClient firebase_env (reset rest_env data_factory) =
     (Inr (1, NewRestApiDataService ''http://localhost:8000/api'' ''k''),
      data_factory\<lparr>dataService := Some (1, NewRestApiDataService ''http://localhost:8000/api'' ''k''),
        allocated := 2\<rparr>)"
    by (simp add: reset_data_factory) (simp add: data_factory_def numeral_2_eq_2)
  from a rest_first have 4: "getAuthService sample_createClient firebase_env rest_factory =
     (Inr (0, NewRestApiAuthService ''http://localhost:8000/api'' ''k''), rest_factory)"
    by blast
  have supa: "cfg_type (config (new_ServiceFactory supabase_env :: (string \<times> string) ServiceFactory)) = ''supabase'' \<and>
      createSupabaseClient sample_createClient supabase_env = Inr (''https://project.supabase.co'', ''anon'')"
    by (simp add: new_ServiceFactory_def getServiceConfig_def supabase_env_def createSupabaseClient_def
        sample_createClient_def)
  have supa_none: "authService (new_ServiceFactory supabase_env :: (string \<times> string) ServiceFactory) = None"
    by (simp add: new_ServiceFactory_def)
  from h supa supa_none
  have "getAuthService sample_createClient supabase_env (new_ServiceFactory supabase_env) =
     (Inr (allocated (new_ServiceFactory supabase_env :: (string \<times> string) ServiceFactory),
           NewSupabaseAuthService (''https://project.supabase.co'', ''anon'')),
      (new_ServiceFactory supabase_env)
        \<lparr>authService := Some (allocated (new_ServiceFactory supabase_env :: (string \<times> string) ServiceFactory),
                               NewSupabaseAuthService (''https://project.supabase.co'', ''anon'')),
         allocated := Suc (allocated (new_ServiceFactory supabase_env :: (string \<times> string) ServiceFactory))\<rparr>)"
    by blast
  then have 5: "getAuthService sample_createClient supabase_env (new_ServiceFactory supabase_env) =
     (Inr (0, NewSupabaseAuthService (''https://project.supabase.co'', ''anon'')),
      (new_ServiceFactory supabase_env)
        \<lparr>authService := Some (0, NewSupabaseAuthService (''https://project.supabase.co'', ''anon'')),
         allocated := 1\<rparr>)"
    by (simp add: new_ServiceFactory_def)
  have t: "firebase_env ''NEXT_PUBLIC_SERVICE_TYPE'' = Some ''firebase'' \<and> ''firebase'' \<noteq> [] \<and>
     ''firebase'' \<noteq> ''supabase'' \<and> ''firebase'' \<noteq> ''rest-api''"
    by (simp add: firebase_env_def)
  from b t have 6: "getAuthService sample_createClient rest_env (new_ServiceFactory firebase_env) =
     (Inl (unsupported_service_type ''firebase''), new_ServiceFactory firebase_env)"
    by blast
  have k: "keyless_env ''NEXT_PUBLIC_SERVICE_TYPE'' = Some ''rest-api'' \<and>
    (js_falsy (keyless_env ''NEXT_PUBLIC_API_BASE_URL'') \<or> js_falsy (keyless_env ''NEXT_PUBLIC_API_KEY''))"
    by (simp add: keyless_env_def)
  from c k have 7: "getDataService sample_createClient rest_env (new_ServiceFactory keyless_env) =
     (Inl rest_config_missing, new_ServiceFactory keyless_env)"
    by blast
  from d ok rest_after_reset
  have 8: "authService rest_factory \<noteq> Some (1, NewRestApiAuthService ''http://localhost:8000/api'' ''k'')"
    by blast
  from 1 2 3 rest_first 4 5 6 7 ok 8 rest_after_reset show ?thesis by simp
qed

text \<open>
  The claim as it was stated fails where it has the getter re-read the configuration.
  After \<open>reset()\<close> under a \<open>rest-api\<close> environment, a getter called when the
  environment names the unsupported type \<open>firebase\<close> returns a new remote service, built
  from the configuration that \<open>reset()\<close> read; a getter that read the configuration at
  the call would throw, as the getter of a factory constructed under that environment does.
\<close>

theorem C9_counterexample:
  "getServiceConfig firebase_env = \<lparr>cfg_type = ''firebase'', cfg_baseUrl = None, cfg_apiKey = None\<rparr> \<and>
   getAuthService sample_createClient firebase_env (reset rest_env rest_factory) =
     (Inr (1, NewRestApiAuthService ''http://localhost:8000/api'' ''k''),
      rest_factory\<lparr>authService := Some (1, NewRestApiAuthService ''http://localhost:8000/api'' ''k''),
        allocated := 2\<rparr>) \<and>
   getAuthService sample_createClient firebase_env (new_ServiceFactory firebase_env) =
     (Inl (unsupported_service_type ''firebase''), new_ServiceFactory firebase_env)"
  by (simp add: getAuthService_def reset_def new_ServiceFactory_def getServiceConfig_def rest_env_def
      firebase_env_def rest_factory_def Let_def numeral_2_eq_2)

section \<open>Kids and their points\<close>

lemma role_text_kid: "role_text r = ''kid'' \<longleftrightarrow> r = Kid"
  by (cases r) simp_all

lemma status_text_approved: "status_text st = ''approved'' \<longleftrightarrow> st = Approved"
  by (cases st) simp_all

lemma status_text_pending: "status_text st = ''pending'' \<longleftrightarrow> st = Pending"
  by (cases st) simp_all

lemma foldl_plus: "foldl (\<lambda>sum points. sum + points) a ps = a + sum_list ps" for a :: int
  by (induction ps arbitrary: a) simp_all

text \<open>
  On the store, \<open>fetchKidsWithPoints\<close> returns the kids of the family that have an
  approved entry, each with the sum of the points of its approved entries.
\<close>

lemma fetchKidsWithPoints_on_store:
  "supabase_fetchKidsWithPoints db_select_user_profiles familyId db =
     (\<lparr>data = Some (map (\<lambda>p. \<lparr>kid_id = up_user_id p, kid_display_name = up_display_name p,
                                kid_total_points = sum_list (map pe_points (approved_entries db p))\<rparr>)
                     (filter (\<lambda>p. approved_entries db p \<noteq> [])
                        (filter (\<lambda>p. up_family_id p = Some familyId \<and> up_role p = Kid) (user_profiles db)))),
       error = None, count = None\<rparr>, db)"
  by (simp add: supabase_fetchKidsWithPoints_def db_select_user_profiles_def query_def settled_def
      resolved_def eq_holds_def inner_embedded_def Let_def role_text_kid status_text_approved
      foldl_plus approved_entries_def o_def)

text \<open>
  Claim C3 at a family whose kid Carol has no approved entry. The specification asks for
  one Kid per kid of the family, Carol with 0 points; the service returns Bob alone, with
  10 + 5 = 15 points (the rejected 100 are not counted).
\<close>

theorem C3_kid_without_approved_entry:
  "fst (supabase_fetchKidsWithPoints db_select_user_profiles ''f1'' family_db) =
     \<lparr>data = Some [\<lparr>kid_id = ''k1'', kid_display_name = ''Bob'', kid_total_points = 15\<rparr>],
      error = None, count = None\<rparr> \<and>
   kids_with_points_spec family_db ''f1'' =
     [\<lparr>kid_id = ''k1'', kid_display_name = ''Bob'', kid_total_points = 15\<rparr>,
      \<lparr>kid_id = ''k2'', kid_display_name = ''Carol'', kid_total_points = 0\<rparr>]"
  by (simp add: fetchKidsWithPoints_on_store kids_with_points_spec_def approved_entries_def family_db_def
      bob_dishes_10_def bob_dishes_5_def bob_rejected_100_def carol_pending_7_def bob_pending_3_def)

section \<open>Pending activities\<close>

text \<open>
  The service's query names \<open>created_at\<close>, in its select list and in its order; the
  table has no such column, so on the store every call returns the error envelope.
\<close>

lemma fetchPendingActivities_on_store:
  "supabase_fetchPendingActivities db_select_point_entries familyId db =
     (\<lparr>data = None, error = Some ''column point_entries.created_at does not exist'', count = None\<rparr>, db)"
  by (simp add: supabase_fetchPendingActivities_def db_select_point_entries_def query_def settled_def
      refused_def caught_list_def named_columns_def point_entries_columns_def undefined_column_def)

lemma newest_first_sorted:
  "sorted_wrt (\<lambda>a b. pe_submitted_at a \<ge> pe_submitted_at b) (sort_key (\<lambda>e. - pe_submitted_at e) xs)"
proof -
  have "sorted (map (\<lambda>e. - pe_submitted_at e) (sort_key (\<lambda>e. - pe_submitted_at e) xs))"
    by (rule sorted_sort_key)
  then show ?thesis by (simp add: sorted_map)
qed

text \<open>
  The query of the dashboard page, which names \<open>submitted_at\<close>, is answered with the
  pending entries of the family, newest first.
\<close>

lemma dashboard_page_query_on_store:
  "fst (db_select_point_entries (dashboard_page_query familyId) db) =
     resolved (map (\<lambda>e. \<lparr>pr_id = pe_id e, pr_points = pe_points e, pr_created_at = None,
                           pr_submitted_at = Some (pe_submitted_at e),
                           pr_activities = map_option act_name (referenced_activity db e),
                           pr_user_profiles = map_option up_display_name (referenced_kid db e)\<rparr>)
                 (sort_key (\<lambda>e. - pe_submitted_at e) (pending_entries db familyId)))"
proof -
  have a: "(case pe_activity_id e of None \<Rightarrow> None
            | Some a \<Rightarrow> map_option act_name (find (\<lambda>x. act_id x = a) (activities db))) =
           map_option act_name (referenced_activity db e)" for e
    by (simp add: referenced_activity_def split: option.splits)
  show ?thesis
    by (simp add: dashboard_page_query_def db_select_point_entries_def query_def named_columns_def
        point_entries_columns_def selects_def eq_holds_def status_text_pending pending_entries_def
        referenced_kid_def a Let_def)
qed

text \<open>
  Claim C8 at a family with two pending entries. The specification asks for the two
  entries, newest first by submission time, with their names resolved; the service asks
  the store for the column \<open>created_at\<close>, which \<open>point_entries\<close> does not have, and
  returns the store's error.
\<close>

theorem C8_created_at_is_no_column:
  "fst (supabase_fetchPendingActivities db_select_point_entries ''f1'' family_db) =
     \<lparr>data = None, error = Some ''column point_entries.created_at does not exist'', count = None\<rparr> \<and>
   pending_activities_spec family_db ''f1'' =
     [\<lparr>pa_id = ''e5'', pa_activity_name = ''Unknown Activity'', pa_kid_name = ''Bob'',
       pa_points = 3, pa_submitted_at = Some 500\<rparr>,
      \<lparr>pa_id = ''e4'', pa_activity_name = ''Homework'', pa_kid_name = ''Carol'',
       pa_points = 7, pa_submitted_at = Some 400\<rparr>]"
  by (simp add: fetchPendingActivities_on_store pending_activities_spec_def pending_entries_def
      pending_view_spec_def referenced_activity_def referenced_kid_def family_db_def homework_def
      bob_dishes_10_def bob_dishes_5_def bob_rejected_100_def carol_pending_7_def bob_pending_3_def)

section \<open>Approval of a point entry\<close>







section \<open>Sign-up of a parent\<close>

lemma signUp_parent_on_store:
  "supabase_signUp auth (db_insert_profile decide_p) (db_insert_family decide_f)
       email password displayName Parent db =
     (let (r, db1) = auth \<lparr>su_email = email, su_password = password, su_display_name = displayName,
                           su_role = Parent\<rparr> db
      in case r of
           Rejects e \<Rightarrow> (caught e, db1)
         | Resolves res \<Rightarrow>
             (case ar_error res of
                Some e \<Rightarrow> (caught e, db1)
              | None \<Rightarrow>
                  (case ar_user res of
                     None \<Rightarrow> (\<lparr>data = None, error = None\<rparr>, db1)
                   | Some u \<Rightarrow>
                       (case decide_p db1 (parent_profile u email displayName) of
                          Refused e \<Rightarrow> (caught e, db1)
                        | Unreachable e \<Rightarrow> (caught e, db1)
                        | Accepted \<Rightarrow>
                            (let db2 = db1\<lparr>user_profiles := user_profiles db1 @ [parent_profile u email displayName]\<rparr>
                             in case decide_f db2 (parent_family u displayName) of
                                  Refused e \<Rightarrow> (caught e, db2)
                                | Unreachable e \<Rightarrow> (caught e, db2)
                                | Accepted \<Rightarrow>
                                    (\<lparr>data = Some u, error = None\<rparr>,
                                     db2\<lparr>families := families db2 @ [parent_family u displayName]\<rparr>))))))"
proof -
  let ?request = "\<lparr>su_email = email, su_password = password, su_display_name = displayName,
                    su_role = Parent\<rparr>"
  obtain r db1 where a: "auth ?request db = (r, db1)" by (cases "auth ?request db")
  note defs = supabase_signUp_def db_insert_profile_def db_insert_family_def query_def settled_def
    refused_def parent_profile_def parent_family_def Let_def
  show ?thesis
  proof (cases r)
    case (Rejects e)
    with a show ?thesis by (simp add: defs)
  next
    case (Resolves res)
    show ?thesis
    proof (cases "ar_error res")
      case (Some e)
      with a Resolves show ?thesis by (simp add: defs)
    next
      case None
      show ?thesis
      proof (cases "ar_user res")
        case no_user: None
        with a Resolves None show ?thesis by (simp add: defs)
      next
        case (Some u)
        show ?thesis
        proof (cases "decide_p db1 (parent_profile u email displayName)")
          case (Refused e)
          with a Resolves None Some show ?thesis by (simp add: defs)
        next
          case (Unreachable e)
          with a Resolves None Some show ?thesis by (simp add: defs)
        next
          case Accepted
          show ?thesis
          proof (cases "decide_f (db1\<lparr>user_profiles := user_profiles db1 @ [parent_profile u email displayName]\<rparr>)
                          (parent_family u displayName)")
            case accepted: Accepted
            with a Resolves None Some Accepted show ?thesis by (simp add: defs)
          next
            case (Refused e)
            with a Resolves None Some Accepted show ?thesis by (simp add: defs)
          next
            case (Unreachable e)
            with a Resolves None Some Accepted show ?thesis by (simp add: defs)
          qed
        qed
      qed
    qed
  qed
qed

text \<open>
  With the foreign key of the schema as the store's decision on a profile row, the profile
  of a new parent is refused, because it is inserted before the family it refers to: the
  sign-up returns the error and creates neither row, whatever the store decides on
  family rows.
\<close>

lemma signUp_parent_under_foreign_key:
  assumes "auth \<lparr>su_email = email, su_password = password, su_display_name = displayName, su_role = Parent\<rparr> db
             = (Resolves \<lparr>ar_user = Some u, ar_error = None\<rparr>, db1)"
    and "\<not> list_ex (\<lambda>x. fam_id x = au_id u) (families db1)"
  shows "supabase_signUp auth (db_insert_profile references_families) (db_insert_family decide_f)
           email password displayName Parent db =
         (\<lparr>data = None, error = Some (message foreign_key_violation)\<rparr>, db1)"
  using assms
  by (simp add: signUp_parent_on_store references_families_def parent_profile_def caught_def)

text \<open>
  On the schema no sign-up of a parent returns a user unless a family with the new
  user's id was there before the sign-up.
\<close>

lemma signUp_parent_needs_family:
  assumes "data (fst (supabase_signUp auth (db_insert_profile references_families) (db_insert_family decide_f)
                        email password displayName Parent db)) = Some u"
  shows "list_ex (\<lambda>x. fam_id x = au_id u)
           (families (snd (auth \<lparr>su_email = email, su_password = password, su_display_name = displayName,
                                   su_role = Parent\<rparr> db)))"
  using assms
  by (cases "auth \<lparr>su_email = email, su_password = password, su_display_name = displayName, su_role = Parent\<rparr> db")
     (auto simp: signUp_parent_on_store references_families_def parent_profile_def caught_def Let_def
        split: awaited.splits option.splits verdict.splits if_splits)


section \<open>getSession\<close>

lemma supabase_getSession_rejects:
  "auth_getSession () s = (Rejects e, s') \<Longrightarrow> supabase_getSession auth_getSession s = (Inl e, s')"
  by (simp add: supabase_getSession_def)

lemma supabase_getSession_resolves:
  "auth_getSession () s = (Resolves res, s') \<Longrightarrow> \<exists>session. supabase_getSession auth_getSession s = (Inr session, s')"
  by (simp add: supabase_getSession_def)

text \<open>The remote variant returns a session whatever \<open>fetch\<close> does, and no user when
  the request yields no data.\<close>

lemma rest_getSession_no_data:
  "data (fst (auth_apiCall fetch ''/auth/me'' no_options s)) = None \<Longrightarrow>
     fst (rest_getSession fetch s) = \<lparr>user = None\<rparr>"
  by (cases "auth_apiCall fetch ''/auth/me'' no_options s") (simp add: rest_getSession_def Let_def)

text \<open>
  Claim C5 at a client whose \<open>auth.getSession()\<close> rejects. The claim asks for
  \<open>{user: null}\<close>; \<open>getSession\<close> of the Supabase variant has no \<open>try\<close>, and rejects
  with the client's error. The remote variant, on a failed request, returns \<open>{user: null}\<close>.
\<close>

theorem C5_getSession_rejects:
  "supabase_getSession (\<lambda>u s. (Rejects \<lparr>message = ''Failed to fetch'', code = None\<rparr>, s)) () =
     (Inl \<lparr>message = ''Failed to fetch'', code = None\<rparr>, ()) \<and>
   fst (rest_getSession (\<lambda>request. Rejects \<lparr>message = ''Failed to fetch'', code = None\<rparr>) signed_in_service) =
     \<lparr>user = None\<rparr>"
  by (simp add: supabase_getSession_def rest_getSession_def auth_apiCall_def api_envelope_def
      signed_in_service_def Let_def)

section \<open>Calls of the remote services\<close>








section \<open>An envelope with an error has no data\<close>

lemma caught_excludes: "error_excludes_data (caught e)" "error_excludes_data (caught_list e')"
  by (simp_all add: error_excludes_data_def caught_def caught_list_def)

lemma api_envelope_excludes: "error_excludes_data (api_envelope r)"
  by (simp add: error_excludes_data_def api_envelope_def split: awaited.splits sum.splits)

lemma api_list_envelope_excludes: "error_excludes_data (api_list_envelope r)"
  by (simp add: error_excludes_data_def api_list_envelope_def split: awaited.splits sum.splits)

lemma data_apiCall_excludes: "error_excludes_data (fst (data_apiCall fetch svc storage endpoint options))"
  by (simp add: data_apiCall_def Let_def api_envelope_excludes)

lemma data_apiListCall_excludes: "error_excludes_data (fst (data_apiListCall fetch svc storage endpoint options))"
  by (simp add: data_apiListCall_def Let_def api_list_envelope_excludes)

lemma auth_apiCall_excludes: "error_excludes_data (fst (auth_apiCall fetch endpoint options s))"
  by (simp add: auth_apiCall_def Let_def api_envelope_excludes)

lemma rest_signIn_excludes: "error_excludes_data (fst (rest_signIn fetch email password s))"
  by (cases "auth_apiCall fetch ''/auth/signin''
        \<lparr>opt_method = Some ''POST'', opt_body = Some (SignInBody email password), opt_headers = []\<rparr> s")
     (simp add: rest_signIn_def error_excludes_data_def split: option.splits)

lemma rest_signUp_excludes: "error_excludes_data (fst (rest_signUp fetch email password displayName role s))"
  by (cases "auth_apiCall fetch ''/auth/signup''
        \<lparr>opt_method = Some ''POST'', opt_body = Some (SignUpBody email password displayName role),
         opt_headers = []\<rparr> s")
     (simp add: rest_signUp_def error_excludes_data_def split: option.splits)

lemma insert_returning_excludes: "error_excludes_data (fst (insert_returning run t row s))"
  by (cases "run ((query t (Insert row) [])\<lparr>q_select := True, q_single := True\<rparr>) s")
     (simp add: insert_returning_def error_excludes_data_def caught_def split: sum.splits)

lemma update_returning_excludes: "error_excludes_data (fst (update_returning run t ident updates s))"
  by (cases "run ((query t (Update updates) [(''id'', ident)])\<lparr>q_select := True, q_single := True\<rparr>) s")
     (simp add: update_returning_def error_excludes_data_def caught_def split: sum.splits)

lemma delete_by_id_excludes: "error_excludes_data (fst (delete_by_id run t ident s))"
  by (cases "run (query t Delete [(''id'', ident)]) s")
     (simp add: delete_by_id_def error_excludes_data_def caught_def split: sum.splits)

lemma supabase_lists_exclude:
  "error_excludes_data (fst (supabase_fetchKidsWithPoints runK familyId s))"
  "error_excludes_data (fst (supabase_fetchPendingActivities runP familyId s))"
  "error_excludes_data (fst (supabase_fetchActivities runL familyId s))"
  "error_excludes_data (fst (supabase_fetchRewards runL familyId s))"
  "error_excludes_data (fst (supabase_fetchPointEntries runL familyId userId s))"
  "error_excludes_data (fst (supabase_fetchRewardRedemptions runL familyId userId s))"
  by (simp_all add: supabase_fetchKidsWithPoints_def supabase_fetchPendingActivities_def
      supabase_fetchActivities_def supabase_fetchRewards_def supabase_fetchPointEntries_def
      supabase_fetchRewardRedemptions_def error_excludes_data_def caught_list_def Let_def
      split: prod.splits sum.splits)

lemma supabase_stats_excludes:
  "error_excludes_data (fst (supabase_fetchDashboardStats runC familyId s))"
  by (simp add: supabase_fetchDashboardStats_def error_excludes_data_def caught_def Let_def
      split: prod.splits awaited.splits)

lemma supabase_auth_excludes:
  "error_excludes_data (fst (supabase_signIn authIn email password s))"
  "error_excludes_data (fst (supabase_signOut authOut s))"
  "error_excludes_data (fst (supabase_fetchUserProfile runU userId s))"
  by (simp_all add: supabase_signIn_def supabase_signOut_def supabase_fetchUserProfile_def
      error_excludes_data_def caught_def Let_def
      split: prod.splits awaited.splits option.splits)

lemma supabase_signUp_excludes:
  "error_excludes_data (fst (supabase_signUp authUp runProfiles runFamilies email password displayName role s))"
  by (simp add: supabase_signUp_def error_excludes_data_def caught_def Let_def
      split: prod.splits awaited.splits option.splits sum.splits)

text \<open>
  Claim C1. Whatever the backend answers, the envelope that an operation of the auth
  service or the data service returns, in the Supabase variant and in the remote variant,
  has no data when it has an error.
\<close>

theorem C1_error_excludes_data:
  "(error_excludes_data (fst (supabase_signIn authIn email password s)) \<and>
    error_excludes_data (fst (supabase_signUp authUp runProfiles runFamilies email password displayName role s)) \<and>
    error_excludes_data (fst (supabase_signOut authOut s)) \<and>
    error_excludes_data (fst (supabase_fetchUserProfile runU userId s))) \<and>
   (error_excludes_data (fst (rest_signIn fetchI email password t)) \<and>
    error_excludes_data (fst (rest_signUp fetchI email password displayName role t)) \<and>
    error_excludes_data (fst (rest_signOut t)) \<and>
    error_excludes_data (fst (rest_fetchUserProfile fetchU userId t))) \<and>
   (error_excludes_data (fst (supabase_fetchActivities runL familyId s)) \<and>
    error_excludes_data (fst (supabase_fetchKidsWithPoints runK familyId s)) \<and>
    error_excludes_data (fst (supabase_fetchPendingActivities runP familyId s)) \<and>
    error_excludes_data (fst (supabase_fetchDashboardStats runC familyId s)) \<and>
    error_excludes_data (fst (supabase_createActivity runS x s)) \<and>
    error_excludes_data (fst (supabase_updateActivity runS ident x s)) \<and>
    error_excludes_data (fst (supabase_deleteActivity runD ident s)) \<and>
    error_excludes_data (fst (supabase_fetchRewards runL familyId s)) \<and>
    error_excludes_data (fst (supabase_createReward runS x s)) \<and>
    error_excludes_data (fst (supabase_updateReward runS ident x s)) \<and>
    error_excludes_data (fst (supabase_deleteReward runD ident s)) \<and>
    error_excludes_data (fst (supabase_fetchPointEntries runL familyId filterUser s)) \<and>
    error_excludes_data (fst (supabase_createPointEntry runS x s)) \<and>
    error_excludes_data (fst (supabase_updatePointEntry runS ident x s)) \<and>
    error_excludes_data (fst (supabase_approvePointEntry runA now ident approved approvedBy s)) \<and>
    error_excludes_data (fst (supabase_fetchRewardRedemptions runL familyId filterUser s)) \<and>
    error_excludes_data (fst (supabase_createRewardRedemption runS x s)) \<and>
    error_excludes_data (fst (supabase_approveRewardRedemption runA now ident approved approvedBy s))) \<and>
   (error_excludes_data (fst (rest_fetchActivities fetchL svc storage familyId)) \<and>
    error_excludes_data (fst (rest_fetchKidsWithPoints fetchL svc storage familyId)) \<and>
    error_excludes_data (fst (rest_fetchPendingActivities fetchL svc storage familyId)) \<and>
    error_excludes_data (fst (rest_fetchDashboardStats fetchS svc storage familyId)) \<and>
    error_excludes_data (fst (rest_createActivity fetchS svc storage y)) \<and>
    error_excludes_data (fst (rest_updateActivity fetchS svc storage ident y)) \<and>
    error_excludes_data (fst (rest_deleteActivity fetchD svc storage ident)) \<and>
    error_excludes_data (fst (rest_fetchRewards fetchL svc storage familyId)) \<and>
    error_excludes_data (fst (rest_createReward fetchS svc storage y)) \<and>
    error_excludes_data (fst (rest_updateReward fetchS svc storage ident y)) \<and>
    error_excludes_data (fst (rest_deleteReward fetchD svc storage ident)) \<and>
    error_excludes_data (fst (rest_fetchPointEntries fetchL svc storage familyId filterUser)) \<and>
    error_excludes_data (fst (rest_createPointEntry fetchS svc storage y)) \<and>
    error_excludes_data (fst (rest_updatePointEntry fetchS svc storage ident y)) \<and>
    error_excludes_data (fst (rest_approvePointEntry fetchA svc storage ident approved approvedBy)) \<and>
    error_excludes_data (fst (rest_fetchRewardRedemptions fetchL svc storage familyId filterUser)) \<and>
    error_excludes_data (fst (rest_createRewardRedemption fetchS svc storage y)) \<and>
    error_excludes_data (fst (rest_approveRewardRedemption fetchA svc storage ident approved approvedBy)))"
proof -
  have supabase_auth:
    "error_excludes_data (fst (supabase_signIn authIn email password s)) \<and>
     error_excludes_data (fst (supabase_signUp authUp runProfiles runFamilies email password displayName role s)) \<and>
     error_excludes_data (fst (supabase_signOut authOut s)) \<and>
     error_excludes_data (fst (supabase_fetchUserProfile runU userId s))"
    by (simp only: supabase_auth_excludes supabase_signUp_excludes simp_thms)
  have rest_auth:
    "error_excludes_data (fst (rest_signIn fetchI email password t)) \<and>
     error_excludes_data (fst (rest_signUp fetchI email password displayName role t)) \<and>
     error_excludes_data (fst (rest_signOut t)) \<and>
     error_excludes_data (fst (rest_fetchUserProfile fetchU userId t))"
  proof -
    have out: "error_excludes_data (fst (rest_signOut t))"
      by (simp add: rest_signOut_def error_excludes_data_def)
    have profile: "error_excludes_data (fst (rest_fetchUserProfile fetchU userId t))"
      by (simp only: rest_fetchUserProfile_def auth_apiCall_excludes)
    from out profile show ?thesis
      by (simp only: rest_signIn_excludes rest_signUp_excludes simp_thms)
  qed
  have supabase_data:
    "error_excludes_data (fst (supabase_fetchActivities runL familyId s)) \<and>
     error_excludes_data (fst (supabase_fetchKidsWithPoints runK familyId s)) \<and>
     error_excludes_data (fst (supabase_fetchPendingActivities runP familyId s)) \<and>
     error_excludes_data (fst (supabase_fetchDashboardStats runC familyId s)) \<and>
     error_excludes_data (fst (supabase_createActivity runS x s)) \<and>
     error_excludes_data (fst (supabase_updateActivity runS ident x s)) \<and>
     error_excludes_data (fst (supabase_deleteActivity runD ident s)) \<and>
     error_excludes_data (fst (supabase_fetchRewards runL familyId s)) \<and>
     error_excludes_data (fst (supabase_createReward runS x s)) \<and>
     error_excludes_data (fst (supabase_updateReward runS ident x s)) \<and>
     error_excludes_data (fst (supabase_deleteReward runD ident s)) \<and>
     error_excludes_data (fst (supabase_fetchPointEntries runL familyId filterUser s)) \<and>
     error_excludes_data (fst (supabase_createPointEntry runS x s)) \<and>
     error_excludes_data (fst (supabase_updatePointEntry runS ident x s)) \<and>
     error_excludes_data (fst (supabase_approvePointEntry runA now ident approved approvedBy s)) \<and>
     error_excludes_data (fst (supabase_fetchRewardRedemptions runL familyId filterUser s)) \<and>
     error_excludes_data (fst (supabase_createRewardRedemption runS x s)) \<and>
     error_excludes_data (fst (supabase_approveRewardRedemption runA now ident approved approvedBy s))"
    by (simp only: supabase_lists_exclude supabase_stats_excludes supabase_createActivity_def
        supabase_updateActivity_def supabase_deleteActivity_def supabase_createReward_def
        supabase_updateReward_def supabase_deleteReward_def supabase_createPointEntry_def
        supabase_updatePointEntry_def supabase_approvePointEntry_def
        supabase_createRewardRedemption_def supabase_approveRewardRedemption_def
        insert_returning_excludes update_returning_excludes delete_by_id_excludes simp_thms)
  have rest_data:
    "error_excludes_data (fst (rest_fetchActivities fetchL svc storage familyId)) \<and>
     error_excludes_data (fst (rest_fetchKidsWithPoints fetchL svc storage familyId)) \<and>
     error_excludes_data (fst (rest_fetchPendingActivities fetchL svc storage familyId)) \<and>
     error_excludes_data (fst (rest_fetchDashboardStats fetchS svc storage familyId)) \<and>
     error_excludes_data (fst (rest_createActivity fetchS svc storage y)) \<and>
     error_excludes_data (fst (rest_updateActivity fetchS svc storage ident y)) \<and>
     error_excludes_data (fst (rest_deleteActivity fetchD svc storage ident)) \<and>
     error_excludes_data (fst (rest_fetchRewards fetchL svc storage familyId)) \<and>
     error_excludes_data (fst (rest_createReward fetchS svc storage y)) \<and>
     error_excludes_data (fst (rest_updateReward fetchS svc storage ident y)) \<and>
     error_excludes_data (fst (rest_deleteReward fetchD svc storage ident)) \<and>
     error_excludes_data (fst (rest_fetchPointEntries fetchL svc storage familyId filterUser)) \<and>
     error_excludes_data (fst (rest_createPointEntry fetchS svc storage y)) \<and>
     error_excludes_data (fst (rest_updatePointEntry fetchS svc storage ident y)) \<and>
     error_excludes_data (fst (rest_approvePointEntry fetchA svc storage ident approved approvedBy)) \<and>
     error_excludes_data (fst (rest_fetchRewardRedemptions fetchL svc storage familyId filterUser)) \<and>
     error_excludes_data (fst (rest_createRewardRedemption fetchS svc storage y)) \<and>
     error_excludes_data (fst (rest_approveRewardRedemption fetchA svc storage ident approved approvedBy))"
    by (simp only: rest_fetchKidsWithPoints_def rest_fetchPendingActivities_def
        rest_fetchDashboardStats_def rest_fetchActivities_def rest_createActivity_def
        rest_updateActivity_def rest_deleteActivity_def rest_fetchRewards_def rest_createReward_def
        rest_updateReward_def rest_deleteReward_def rest_fetchPointEntries_def
        rest_createPointEntry_def rest_updatePointEntry_def rest_approvePointEntry_def
        rest_fetchRewardRedemptions_def rest_createRewardRedemption_def
        rest_approveRewardRedemption_def data_apiCall_excludes data_apiListCall_excludes simp_thms)
  from supabase_auth rest_auth supabase_data rest_data show ?thesis
    by (simp only: simp_thms)
qed

theorem C1_error_excludes_data_witness:
  "fst (supabase_signIn auth_down ''a@b.c'' ''pw'' ()) = \<lparr>data = None, error = Some ''Failed to fetch''\<rparr> \<and>
   fst (rest_signIn signin_offline ''a@b.c'' ''pw'' signed_in_service) =
     \<lparr>data = None, error = Some ''Failed to fetch''\<rparr> \<and>
   fst (supabase_fetchActivities activities_down ''f1'' ()) =
     \<lparr>data = None, error = Some ''Failed to fetch'', count = None\<rparr> \<and>
   fst (rest_fetchActivities server_error data_service token_storage ''f1'') =
     \<lparr>data = None, error = Some ''API request failed'', count = None\<rparr>"
proof -
  note a = C1_error_excludes_data [where authIn = auth_down and email = "''a@b.c''" and password = "''pw''"
      and s = "()" and fetchI = signin_offline and t = signed_in_service and runL = activities_down
      and familyId = "''f1''" and fetchL = server_error and svc = data_service and storage = token_storage]
  have e1: "error (fst (supabase_signIn auth_down ''a@b.c'' ''pw'' ())) = Some ''Failed to fetch''"
    by (simp add: supabase_signIn_def auth_down_def caught_def network_down_def)
  from a [THEN conjunct1, THEN conjunct1] e1
  have d1: "data (fst (supabase_signIn auth_down ''a@b.c'' ''pw'' ())) = None"
    by (simp add: error_excludes_data_def)
  have e2: "error (fst (rest_signIn signin_offline ''a@b.c'' ''pw'' signed_in_service)) = Some ''Failed to fetch''"
    by (simp add: rest_signIn_def auth_apiCall_def api_envelope_def signin_offline_def network_down_def Let_def)
  from a [THEN conjunct2, THEN conjunct1, THEN conjunct1] e2
  have d2: "data (fst (rest_signIn signin_offline ''a@b.c'' ''pw'' signed_in_service)) = None"
    by (simp add: error_excludes_data_def)
  have e3: "error (fst (supabase_fetchActivities activities_down ''f1'' ())) = Some ''Failed to fetch'' \<and>
            count (fst (supabase_fetchActivities activities_down ''f1'' ())) = None"
    by (simp add: supabase_fetchActivities_def activities_down_def settled_def caught_list_def network_down_def)
  from a [THEN conjunct2, THEN conjunct2, THEN conjunct1, THEN conjunct1] e3
  have d3: "data (fst (supabase_fetchActivities activities_down ''f1'' ())) = None"
    by (simp add: error_excludes_data_def)
  have e4: "error (fst (rest_fetchActivities server_error data_service token_storage ''f1'')) = Some ''API request failed'' \<and>
            count (fst (rest_fetchActivities server_error data_service token_storage ''f1'')) = None"
    by (simp add: rest_fetchActivities_def data_apiListCall_def api_list_envelope_def server_error_def Let_def)
  from a [THEN conjunct2, THEN conjunct2, THEN conjunct2, THEN conjunct1] e4
  have d4: "data (fst (rest_fetchActivities server_error data_service token_storage ''f1'')) = None"
    by (simp add: error_excludes_data_def)
  have r: "x = \<lparr>data = data x, error = error x\<rparr>" for x :: "'a ApiResponse"
    by (cases x) simp
  have rl: "x = \<lparr>data = data x, error = error x, count = count x\<rparr>" for x :: "'a ApiListResponse"
    by (cases x) simp
  from e1 d1 r [of "fst (supabase_signIn auth_down ''a@b.c'' ''pw'' ())"]
  have 1: "fst (supabase_signIn auth_down ''a@b.c'' ''pw'' ()) = \<lparr>data = None, error = Some ''Failed to fetch''\<rparr>"
    by simp
  from e2 d2 r [of "fst (rest_signIn signin_offline ''a@b.c'' ''pw'' signed_in_service)"]
  have 2: "fst (rest_signIn signin_offline ''a@b.c'' ''pw'' signed_in_service) =
      \<lparr>data = None, error = Some ''Failed to fetch''\<rparr>"
    by simp
  from e3 d3 rl [of "fst (supabase_fetchActivities activities_down ''f1'' ())"]
  have 3: "fst (supabase_fetchActivities activities_down ''f1'' ()) =
      \<lparr>data = None, error = Some ''Failed to fetch'', count = None\<rparr>"
    by simp
  from e4 d4 rl [of "fst (rest_fetchActivities server_error data_service token_storage ''f1'')"]
  have 4: "fst (rest_fetchActivities server_error data_service token_storage ''f1'') =
      \<lparr>data = None, error = Some ''API request failed'', count = None\<rparr>"
    by simp
  from 1 2 3 4 show ?thesis by simp
qed

end
